theory Spec2Isabelle
  imports Complex_Main
begin

section \<open>Errors, numbers and tensors\<close>

text \<open>
  The model of \<^verbatim>\<open>src/transformer_from_scratch/model.py\<close>.  A raised exception is a value:
  \<open>RuntimeError\<close> is what torch raises on a shape mismatch (and on a tensor of negative
  size), \<open>ZeroDivisionError\<close> is Python's own on \<^verbatim>\<open>//\<close> by zero, \<open>ValueError\<close> is what
  \<^verbatim>\<open>nn.Dropout\<close> raises on a probability outside \<open>[0, 1]\<close>.
\<close>

datatype error = RuntimeError | ZeroDivisionError | ValueError

type_synonym 'a result = "error + 'a"

definition bindE :: "'a result \<Rightarrow> ('a \<Rightarrow> 'b result) \<Rightarrow> 'b result" where
  "bindE m f = (case m of Inl e \<Rightarrow> Inl e | Inr x \<Rightarrow> f x)"

text \<open>
  Numbers are idealised: a float is a real number or \<open>NaN\<close>; rounding, overflow and
  underflow are left out.  \<open>NaN\<close> is kept because the program produces it (a softmax over
  a slice that is masked out everywhere), and it then spreads through every later operation.
  Negative infinity occurs only in the scores after \<^verbatim>\<open>masked_fill\<close>, so it lives in its
  own type \<open>score\<close>.
\<close>

datatype val = NaN | Fin real

fun vadd :: "val \<Rightarrow> val \<Rightarrow> val" where
  "vadd (Fin x) (Fin y) = Fin (x + y)"
| "vadd _ _ = NaN"

fun vmul :: "val \<Rightarrow> val \<Rightarrow> val" where
  "vmul (Fin x) (Fin y) = Fin (x * y)"
| "vmul _ _ = NaN"

definition vsum :: "val list \<Rightarrow> val" where
  "vsum xs = foldr vadd xs (Fin 0)"

datatype score = NegInf | Sc val

text \<open>
  A tensor is its shape and its entries; a 3-dimensional one has the axes (batch, position,
  feature) or, for scores and weights, (batch, query, key).  Entries outside the shape carry
  no meaning.
\<close>

datatype 'a tensor = Tensor (dim0: nat) (dim1: nat) (dim2: nat) (entry: "nat \<Rightarrow> nat \<Rightarrow> nat \<Rightarrow> 'a")

datatype 'a tensor2 = Tensor2 (rows: nat) (cols: nat) (cell: "nat \<Rightarrow> nat \<Rightarrow> 'a")

definition shape :: "'a tensor \<Rightarrow> nat \<times> nat \<times> nat" where
  "shape t = (dim0 t, dim1 t, dim2 t)"

section \<open>The torch operations the program calls\<close>

text \<open>\<^verbatim>\<open>nn.Linear(in_features, out_features)\<close>: \<open>y = x W\<^sup>T + b\<close> on the last axis.\<close>

record Linear =
  in_features :: nat
  out_features :: nat
  weight :: "nat \<Rightarrow> nat \<Rightarrow> val"
  bias :: "nat \<Rightarrow> val"

definition Linear_forward :: "Linear \<Rightarrow> val tensor \<Rightarrow> val tensor result" where
  "Linear_forward L x =
     (if dim2 x = in_features L
      then Inr (Tensor (dim0 x) (dim1 x) (out_features L)
                 (\<lambda>b i k. vadd (vsum (map (\<lambda>c. vmul (entry x b i c) (weight L k c))
                                        [0..<in_features L]))
                                (bias L k)))
      else Inl RuntimeError)"

text \<open>\<^verbatim>\<open>t.transpose(1, 2)\<close> and \<^verbatim>\<open>torch.bmm(a, b)\<close>, which does not broadcast.\<close>

definition transpose12 :: "'a tensor \<Rightarrow> 'a tensor" where
  "transpose12 t = Tensor (dim0 t) (dim2 t) (dim1 t) (\<lambda>b i j. entry t b j i)"

definition bmm :: "val tensor \<Rightarrow> val tensor \<Rightarrow> val tensor result" where
  "bmm a b =
     (if dim0 a = dim0 b \<and> dim2 a = dim1 b
      then Inr (Tensor (dim0 a) (dim1 a) (dim2 b)
                 (\<lambda>n i j. vsum (map (\<lambda>m. vmul (entry a n i m) (entry b n m j)) [0..<dim2 a])))
      else Inl RuntimeError)"

text \<open>
  \<^verbatim>\<open>scores / np.sqrt(dim_k)\<close>.  With \<^verbatim>\<open>dim_k = 0\<close> every dot product is the empty sum 0 and
  the quotient is 0/0, a NaN; no other division by zero can happen on this line.
\<close>

fun vdiv :: "val \<Rightarrow> real \<Rightarrow> val" where
  "vdiv NaN c = NaN"
| "vdiv (Fin x) c = (if c = 0 then NaN else Fin (x / c))"

definition div_scalar :: "val tensor \<Rightarrow> real \<Rightarrow> val tensor" where
  "div_scalar t c = Tensor (dim0 t) (dim1 t) (dim2 t) (\<lambda>b i j. vdiv (entry t b i j) c)"

text \<open>
  \<^verbatim>\<open>m[:, None, :]\<close>, \<^verbatim>\<open>m[None, :, :]\<close> and \<^verbatim>\<open>t.expand(b, n, m)\<close>: an axis keeps its size
  or grows from size 1, anything else raises.
\<close>

definition unsqueeze1 :: "'a tensor2 \<Rightarrow> 'a tensor" where
  "unsqueeze1 m = Tensor (rows m) 1 (cols m) (\<lambda>b i j. cell m b j)"

definition unsqueeze0 :: "'a tensor2 \<Rightarrow> 'a tensor" where
  "unsqueeze0 m = Tensor 1 (rows m) (cols m) (\<lambda>b i j. cell m i j)"

definition expandable :: "nat \<Rightarrow> nat \<Rightarrow> bool" where
  "expandable have want = (have = want \<or> have = 1)"

definition bidx :: "nat \<Rightarrow> nat \<Rightarrow> nat" where
  "bidx have i = (if have = 1 then 0 else i)"

definition expand :: "'a tensor \<Rightarrow> nat \<Rightarrow> nat \<Rightarrow> nat \<Rightarrow> 'a tensor result" where
  "expand t b n m =
     (if expandable (dim0 t) b \<and> expandable (dim1 t) n \<and> expandable (dim2 t) m
      then Inr (Tensor b n m
                 (\<lambda>x y z. entry t (bidx (dim0 t) x) (bidx (dim1 t) y) (bidx (dim2 t) z)))
      else Inl RuntimeError)"

text \<open>
  \<^verbatim>\<open>torch.ones((n, m), dtype=torch.uint8)\<close>, \<^verbatim>\<open>torch.triu(a, diagonal=d)\<close>, \<^verbatim>\<open>1 - a\<close> in
  uint8 arithmetic, and \<^verbatim>\<open>a == 0\<close>.
\<close>

definition ones :: "nat \<Rightarrow> nat \<Rightarrow> int tensor2" where
  "ones n m = Tensor2 n m (\<lambda>i j. 1)"

definition triu :: "int tensor2 \<Rightarrow> int \<Rightarrow> int tensor2" where
  "triu a diagonal =
     Tensor2 (rows a) (cols a) (\<lambda>i j. if diagonal \<le> int j - int i then cell a i j else 0)"

definition rsub :: "int \<Rightarrow> int tensor2 \<Rightarrow> int tensor2" where
  "rsub c a = Tensor2 (rows a) (cols a) (\<lambda>i j. (c - cell a i j) mod 256)"

definition eq0 :: "int tensor \<Rightarrow> bool tensor" where
  "eq0 t = Tensor (dim0 t) (dim1 t) (dim2 t) (\<lambda>b i j. entry t b i j = 0)"

text \<open>
  \<^verbatim>\<open>t.masked_fill(m, v)\<close>, out of place: tensor and mask are broadcast against each other,
  and the result holds \<open>v\<close> where the mask is true.
\<close>

definition broadcastable :: "nat \<Rightarrow> nat \<Rightarrow> bool" where
  "broadcastable a b = (a = b \<or> a = 1 \<or> b = 1)"

definition broadcast_dim :: "nat \<Rightarrow> nat \<Rightarrow> nat" where
  "broadcast_dim a b = (if a = 1 then b else a)"

definition masked_fill :: "score tensor \<Rightarrow> bool tensor \<Rightarrow> score \<Rightarrow> score tensor result" where
  "masked_fill t m v =
     (if broadcastable (dim0 t) (dim0 m) \<and> broadcastable (dim1 t) (dim1 m)
         \<and> broadcastable (dim2 t) (dim2 m)
      then Inr (Tensor (broadcast_dim (dim0 t) (dim0 m)) (broadcast_dim (dim1 t) (dim1 m))
                 (broadcast_dim (dim2 t) (dim2 m))
                 (\<lambda>x y z. if entry m (bidx (dim0 m) x) (bidx (dim1 m) y) (bidx (dim2 m) z) then v
                           else entry t (bidx (dim0 t) x) (bidx (dim1 t) y) (bidx (dim2 t) z)))
      else Inl RuntimeError)"

text \<open>
  \<^verbatim>\<open>torch.softmax(scores, dim=1)\<close>.  Along one slice: a NaN anywhere, or negative infinity
  everywhere (then the maximum is subtracted from itself), makes every entry NaN; otherwise
  an entry at negative infinity gets exactly 0 and the others share 1 in proportion to their
  exponentials.  \<open>dim=1\<close> makes the slices run over the second axis, with batch and third
  index fixed.  The exponential is the one of the reals, which neither underflows nor
  overflows: a float softmax returns exactly 0 for a score far enough below the maximum of
  its slice, so what is proved about the size of a weight on arbitrary finite inputs is
  proved of the idealisation, while shapes, exceptions, the state and the results on slices
  filled with negative infinity do not depend on it.
\<close>

fun is_nan :: "score \<Rightarrow> bool" where
  "is_nan (Sc NaN) = True"
| "is_nan _ = False"

fun is_neginf :: "score \<Rightarrow> bool" where
  "is_neginf NegInf = True"
| "is_neginf _ = False"

fun expw :: "score \<Rightarrow> real" where
  "expw (Sc (Fin x)) = exp x"
| "expw _ = 0"

definition softmax1 :: "score list \<Rightarrow> score \<Rightarrow> val" where
  "softmax1 slice x =
     (if list_ex is_nan slice \<or> list_all is_neginf slice then NaN
      else Fin (expw x / sum_list (map expw slice)))"

definition softmax_dim1 :: "score tensor \<Rightarrow> val tensor" where
  "softmax_dim1 s =
     Tensor (dim0 s) (dim1 s) (dim2 s)
       (\<lambda>b i j. softmax1 (map (\<lambda>i'. entry s b i' j) [0..<dim1 s]) (entry s b i j))"

definition to_score :: "val tensor \<Rightarrow> score tensor" where
  "to_score t = Tensor (dim0 t) (dim1 t) (dim2 t) (\<lambda>b i j. Sc (entry t b i j))"

section \<open>SelfAttention\<close>

text \<open>
  One attention head.  Its \<^verbatim>\<open>self.dropout\<close> is constructed and never called, so it has no
  part in \<^verbatim>\<open>forward\<close>.  The field \<open>value_lin\<close> is the source's \<^verbatim>\<open>self.value\<close>, as
  \<open>output_lin\<close> below is \<^verbatim>\<open>self.output\<close>.
\<close>

record SelfAttention =
  query :: Linear
  key :: Linear
  value_lin :: Linear

text \<open>The causal mask of lines 118 to 120: 1 where \<open>j \<le> i\<close>, 0 where \<open>j > i\<close>.\<close>

definition subsequent_mask :: "nat \<Rightarrow> int tensor2" where
  "subsequent_mask tgt_len = rsub 1 (triu (ones tgt_len tgt_len) 1)"

text \<open>
  Lines 112 and 113, and the masked branch of lines 117 to 123, of \<^verbatim>\<open>SelfAttention.forward\<close>.
\<close>

definition attention_scores :: "val tensor \<Rightarrow> val tensor \<Rightarrow> val tensor result" where
  "attention_scores query' key' =
     (let dim_k = dim2 key' in
      bindE (bmm query' (transpose12 key')) (\<lambda>qk.
      Inr (div_scalar qk (sqrt (real dim_k)))))"

definition apply_mask ::
  "score tensor \<Rightarrow> nat \<Rightarrow> nat \<Rightarrow> nat \<Rightarrow> int tensor2 \<Rightarrow> score tensor result" where
  "apply_mask scores bs tgt_len seq_len m =
     bindE (expand (unsqueeze1 m) bs tgt_len seq_len) (\<lambda>expanded_mask.
     bindE (expand (unsqueeze0 (subsequent_mask tgt_len)) bs tgt_len tgt_len)
       (\<lambda>subsequent_mask'.
     bindE (masked_fill scores (eq0 expanded_mask) NegInf) (\<lambda>scores'.
     masked_fill scores' (eq0 subsequent_mask') NegInf)))"

text \<open>
  \<^verbatim>\<open>SelfAttention.forward\<close> up to line 125: the locals \<^verbatim>\<open>weights\<close> and \<^verbatim>\<open>value\<close> as they
  stand there.  \<open>None\<close> for the mask is Python's \<^verbatim>\<open>None\<close>.
\<close>

definition SelfAttention_locals ::
  "SelfAttention \<Rightarrow> val tensor \<Rightarrow> val tensor \<Rightarrow> val tensor \<Rightarrow> int tensor2 option
     \<Rightarrow> (val tensor \<times> val tensor) result" where
  "SelfAttention_locals A q k v mask' =
     (let bs = dim0 q; tgt_len = dim1 q; seq_len = dim1 k in
      bindE (Linear_forward (query A) q) (\<lambda>query'.
      bindE (Linear_forward (key A) k) (\<lambda>key'.
      bindE (Linear_forward (value_lin A) v) (\<lambda>value'.
      bindE (attention_scores query' key') (\<lambda>scores.
      bindE (case mask' of
               None \<Rightarrow> Inr (to_score scores)
             | Some m \<Rightarrow> apply_mask (to_score scores) bs tgt_len seq_len m) (\<lambda>scores.
      Inr (softmax_dim1 scores, value')))))))"

definition SelfAttention_weights ::
  "SelfAttention \<Rightarrow> val tensor \<Rightarrow> val tensor \<Rightarrow> val tensor \<Rightarrow> int tensor2 option
     \<Rightarrow> val tensor result" where
  "SelfAttention_weights A q k v mask' =
     bindE (SelfAttention_locals A q k v mask') (\<lambda>(weights, value'). Inr weights)"

definition SelfAttention_forward ::
  "SelfAttention \<Rightarrow> val tensor \<Rightarrow> val tensor \<Rightarrow> val tensor \<Rightarrow> int tensor2 option
     \<Rightarrow> val tensor result" where
  "SelfAttention_forward A q k v mask' =
     bindE (SelfAttention_locals A q k v mask') (\<lambda>(weights, value'). bmm weights value')"

section \<open>MultiHeadedAttention\<close>

text \<open>
  \<^verbatim>\<open>torch.cat(tensors, dim=1)\<close>: the tensors are laid one after the other along the second
  axis and must agree on the other two; an empty list raises.
\<close>

fun cat_entry :: "'a tensor list \<Rightarrow> nat \<Rightarrow> nat \<Rightarrow> nat \<Rightarrow> 'a \<Rightarrow> 'a" where
  "cat_entry [] b i c d = d"
| "cat_entry (t # ts) b i c d =
     (if i < dim1 t then entry t b i c else cat_entry ts b (i - dim1 t) c d)"

definition cat_dim1 :: "val tensor list \<Rightarrow> val tensor result" where
  "cat_dim1 ts =
     (case ts of
        [] \<Rightarrow> Inl RuntimeError
      | t # rest \<Rightarrow>
          if list_all (\<lambda>u. dim0 u = dim0 t \<and> dim2 u = dim2 t) rest
          then Inr (Tensor (dim0 t) (sum_list (map dim1 ts)) (dim2 t)
                     (\<lambda>b i c. cat_entry ts b i c NaN))
          else Inl RuntimeError)"

text \<open>A list comprehension whose body may raise: the first exception ends it.\<close>

fun mapE :: "('a \<Rightarrow> 'b result) \<Rightarrow> 'a list \<Rightarrow> 'b list result" where
  "mapE f [] = Inr []"
| "mapE f (x # xs) = bindE (f x) (\<lambda>y. bindE (mapE f xs) (\<lambda>ys. Inr (y # ys)))"

record MultiHeadedAttention =
  d_model :: int
  num_heads :: int
  dropout :: real
  attn_output_size :: int
  attentions :: "SelfAttention list"
  output_lin :: Linear

definition MultiHeadedAttention_forward ::
  "MultiHeadedAttention \<Rightarrow> val tensor \<Rightarrow> val tensor \<Rightarrow> val tensor \<Rightarrow> int tensor2 option
     \<Rightarrow> val tensor result" where
  "MultiHeadedAttention_forward M q k v mask' =
     bindE (mapE (\<lambda>layer. SelfAttention_forward layer q k v mask') (attentions M)) (\<lambda>heads.
     bindE (cat_dim1 heads) (\<lambda>x.
     Linear_forward (output_lin M) x))"

section \<open>Residual add, LayerNorm and the feed-forward block\<close>

text \<open>\<^verbatim>\<open>x + y\<close> on tensors, with broadcasting.\<close>

definition tensor_add :: "val tensor \<Rightarrow> val tensor \<Rightarrow> val tensor result" where
  "tensor_add x y =
     (if broadcastable (dim0 x) (dim0 y) \<and> broadcastable (dim1 x) (dim1 y)
         \<and> broadcastable (dim2 x) (dim2 y)
      then Inr (Tensor (broadcast_dim (dim0 x) (dim0 y)) (broadcast_dim (dim1 x) (dim1 y))
                 (broadcast_dim (dim2 x) (dim2 y))
                 (\<lambda>b i c. vadd (entry x (bidx (dim0 x) b) (bidx (dim1 x) i) (bidx (dim2 x) c))
                                (entry y (bidx (dim0 y) b) (bidx (dim1 y) i) (bidx (dim2 y) c))))
      else Inl RuntimeError)"

text \<open>
  \<^verbatim>\<open>nn.LayerNorm(d)\<close>: over the last axis, \<open>(x - mean) / sqrt (var + eps) * weight + bias\<close>
  with the biased variance.
\<close>

record LayerNorm =
  normalized_shape :: nat
  ln_weight :: "nat \<Rightarrow> val"
  ln_bias :: "nat \<Rightarrow> val"
  eps :: real

fun vsub :: "val \<Rightarrow> val \<Rightarrow> val" where
  "vsub (Fin x) (Fin y) = Fin (x - y)"
| "vsub _ _ = NaN"

fun vsqrt_plus :: "val \<Rightarrow> real \<Rightarrow> real" where
  "vsqrt_plus (Fin x) e = sqrt (x + e)"
| "vsqrt_plus NaN e = 0"

definition layer_norm_row :: "LayerNorm \<Rightarrow> val list \<Rightarrow> nat \<Rightarrow> val \<Rightarrow> val" where
  "layer_norm_row N row c x =
     (let n = real (length row);
          mean = vdiv (vsum row) n;
          var = vdiv (vsum (map (\<lambda>u. vmul (vsub u mean) (vsub u mean)) row)) n
      in vadd (vmul (vdiv (vsub x mean) (vsqrt_plus var (eps N))) (ln_weight N c))
              (ln_bias N c))"

definition LayerNorm_forward :: "LayerNorm \<Rightarrow> val tensor \<Rightarrow> val tensor result" where
  "LayerNorm_forward N x =
     (if dim2 x = normalized_shape N
      then Inr (Tensor (dim0 x) (dim1 x) (dim2 x)
                 (\<lambda>b i c. layer_norm_row N (map (entry x b i) [0..<dim2 x]) c (entry x b i c)))
      else Inl RuntimeError)"

fun relu :: "val \<Rightarrow> val" where
  "relu NaN = NaN"
| "relu (Fin x) = Fin (max 0 x)"

definition ReLU_forward :: "val tensor \<Rightarrow> val tensor" where
  "ReLU_forward x = Tensor (dim0 x) (dim1 x) (dim2 x) (\<lambda>b i c. relu (entry x b i c))"

section \<open>State: the module tree, the training flag and the random generator\<close>

text \<open>
  What a forward pass can read and write besides its arguments: the modules with their
  parameters, the flag that \<^verbatim>\<open>train()\<close> and \<^verbatim>\<open>eval()\<close> set on every module, and torch's
  random generator, here the stream of uniform draws it will hand out.  The module records
  follow; \<open>'m\<close> is the type of the module tree.
\<close>

record 'm state =
  model :: 'm
  training :: bool
  rng :: "nat \<Rightarrow> real"

type_synonym ('m, 'a) M = "'m state \<Rightarrow> 'a result \<times> 'm state"

definition returnM :: "'a result \<Rightarrow> ('m, 'a) M" where
  "returnM r s = (r, s)"

definition bindM :: "('m, 'a) M \<Rightarrow> ('a \<Rightarrow> ('m, 'b) M) \<Rightarrow> ('m, 'b) M" where
  "bindM m f s = (case m s of (Inl e, s') \<Rightarrow> (Inl e, s') | (Inr x, s') \<Rightarrow> f x s')"

text \<open>
  \<^verbatim>\<open>nn.Dropout(p)\<close>: the identity unless training; when training each entry is kept with
  probability \<open>1 - p\<close> and scaled by \<open>1 / (1 - p)\<close>, or zeroed, and the generator moves on by
  one draw per entry.
\<close>

definition Dropout_forward :: "real \<Rightarrow> val tensor \<Rightarrow> ('m, val tensor) M" where
  "Dropout_forward p x s =
     (if training s
      then (Inr (Tensor (dim0 x) (dim1 x) (dim2 x)
                  (\<lambda>b i c. vmul (entry x b i c)
                     (Fin (if rng s ((b * dim1 x + i) * dim2 x + c) < 1 - p
                           then 1 / (1 - p) else 0)))),
            s\<lparr>rng := \<lambda>n. rng s (n + dim0 x * dim1 x * dim2 x)\<rparr>)
      else (Inr x, s))"

text \<open>
  \<^verbatim>\<open>nn.Sequential\<close> over the three kinds of module the program puts in one.
  \<^verbatim>\<open>ReLU(inplace=True)\<close> overwrites the tensor the preceding \<^verbatim>\<open>Linear\<close> has just created,
  which nothing else refers to.
\<close>

datatype module = MLinear Linear | MReLU | MDropout real

fun module_forward :: "module \<Rightarrow> val tensor \<Rightarrow> ('m, val tensor) M" where
  "module_forward (MLinear L) x = returnM (Linear_forward L x)"
| "module_forward MReLU x = returnM (Inr (ReLU_forward x))"
| "module_forward (MDropout p) x = Dropout_forward p x"

fun Sequential_forward :: "module list \<Rightarrow> val tensor \<Rightarrow> ('m, val tensor) M" where
  "Sequential_forward [] x = returnM (Inr x)"
| "Sequential_forward (m # ms) x = bindM (module_forward m x) (Sequential_forward ms)"

section \<open>Encoder and decoder layers\<close>

record EncoderLayer =
  attn :: MultiHeadedAttention
  ffn :: "module list"
  attn_norm :: LayerNorm
  ffn_norm :: LayerNorm

definition EncoderLayer_forward ::
  "EncoderLayer \<Rightarrow> val tensor \<Rightarrow> int tensor2 option \<Rightarrow> ('m, val tensor) M" where
  "EncoderLayer_forward L src src_mask =
     (let x = src in
      bindM (returnM (MultiHeadedAttention_forward (attn L) x x x src_mask)) (\<lambda>a.
      bindM (returnM (tensor_add x a)) (\<lambda>x.
      bindM (returnM (LayerNorm_forward (attn_norm L) x)) (\<lambda>x.
      bindM (Sequential_forward (ffn L) x) (\<lambda>f.
      bindM (returnM (tensor_add x f)) (\<lambda>x.
      returnM (LayerNorm_forward (ffn_norm L) x)))))))"

text \<open>
  The decoder layer's fields \<^verbatim>\<open>attn\<close>, \<^verbatim>\<open>ffn\<close>, \<^verbatim>\<open>attn_norm\<close> and \<^verbatim>\<open>ffn_norm\<close> carry the
  prefix \<open>dec_\<close> here, the encoder layer having taken the names.
\<close>

record DecoderLayer =
  masked_attn :: MultiHeadedAttention
  dec_attn :: MultiHeadedAttention
  dec_ffn :: "module list"
  masked_attn_norm :: LayerNorm
  dec_attn_norm :: LayerNorm
  dec_ffn_norm :: LayerNorm

definition DecoderLayer_forward ::
  "DecoderLayer \<Rightarrow> val tensor \<Rightarrow> val tensor \<Rightarrow> int tensor2 option \<Rightarrow> int tensor2 option
     \<Rightarrow> ('m, val tensor) M" where
  "DecoderLayer_forward L tgt enc tgt_mask enc_mask =
     (let x = tgt in
      bindM (returnM (MultiHeadedAttention_forward (masked_attn L) x x x tgt_mask)) (\<lambda>a.
      bindM (returnM (tensor_add x a)) (\<lambda>x.
      bindM (returnM (LayerNorm_forward (masked_attn_norm L) x)) (\<lambda>x.
      bindM (returnM (MultiHeadedAttention_forward (dec_attn L) x enc enc enc_mask)) (\<lambda>a.
      bindM (returnM (tensor_add x a)) (\<lambda>x.
      bindM (returnM (LayerNorm_forward (dec_attn_norm L) x)) (\<lambda>x.
      bindM (Sequential_forward (dec_ffn L) x) (\<lambda>f.
      bindM (returnM (tensor_add x f)) (\<lambda>x.
      returnM (LayerNorm_forward (dec_ffn_norm L) x))))))))))"

section \<open>Encoder, Decoder and Transformer\<close>

record Encoder =
  enc_layers :: "EncoderLayer list"

record Decoder =
  dec_layers :: "DecoderLayer list"

record Transformer =
  encoder :: Encoder
  decoder :: Decoder

fun Encoder_loop ::
  "EncoderLayer list \<Rightarrow> val tensor \<Rightarrow> int tensor2 option \<Rightarrow> ('m, val tensor) M" where
  "Encoder_loop [] output' src_mask = returnM (Inr output')"
| "Encoder_loop (layer # layers) output' src_mask =
     bindM (EncoderLayer_forward layer output' src_mask)
       (\<lambda>output'. Encoder_loop layers output' src_mask)"

definition Encoder_forward ::
  "Encoder \<Rightarrow> val tensor \<Rightarrow> int tensor2 option \<Rightarrow> ('m, val tensor) M" where
  "Encoder_forward E src src_mask = (let output' = src in Encoder_loop (enc_layers E) output' src_mask)"

fun Decoder_loop ::
  "DecoderLayer list \<Rightarrow> val tensor \<Rightarrow> val tensor \<Rightarrow> int tensor2 option \<Rightarrow> int tensor2 option
     \<Rightarrow> ('m, val tensor) M" where
  "Decoder_loop [] output' enc tgt_mask enc_mask = returnM (Inr output')"
| "Decoder_loop (layer # layers) output' enc tgt_mask enc_mask =
     bindM (DecoderLayer_forward layer output' enc tgt_mask enc_mask)
       (\<lambda>output'. Decoder_loop layers output' enc tgt_mask enc_mask)"

definition Decoder_forward ::
  "Decoder \<Rightarrow> val tensor \<Rightarrow> val tensor \<Rightarrow> int tensor2 option \<Rightarrow> int tensor2 option
     \<Rightarrow> ('m, val tensor) M" where
  "Decoder_forward D tgt enc tgt_mask enc_mask =
     (let output' = tgt in Decoder_loop (dec_layers D) output' enc tgt_mask enc_mask)"

text \<open>
  \<^verbatim>\<open>Transformer.forward\<close>, lines 14 to 17.  \<^verbatim>\<open>self\<close> is the module tree of the state.  The
  call of line 16 passes \<^verbatim>\<open>src_mask, tgt_mask\<close> in this order to a method whose parameters
  are \<^verbatim>\<open>tgt_mask, enc_mask\<close> in that order.
\<close>

definition Transformer_forward ::
  "val tensor \<Rightarrow> val tensor \<Rightarrow> int tensor2 option \<Rightarrow> int tensor2 option
     \<Rightarrow> (Transformer, val tensor) M" where
  "Transformer_forward src tgt src_mask tgt_mask =
     (\<lambda>s. bindM (Encoder_forward (encoder (model s)) src src_mask) (\<lambda>enc_out.
          (\<lambda>s'. bindM (Decoder_forward (decoder (model s')) tgt enc_out src_mask tgt_mask)
                   (\<lambda>dec_out. returnM (Inr dec_out)) s')) s)"

section \<open>Construction\<close>

text \<open>
  The \<^verbatim>\<open>__init__\<close> methods.  The configuration values are Python integers.  \<open>\<theta>\<close> supplies
  the value of every parameter by its place in the module tree (the initial values torch
  draws, or whatever training or loading has put there since).  A tensor of negative size
  makes torch raise; \<^verbatim>\<open>nn.Dropout\<close> rejects a probability outside \<open>[0, 1]\<close>.
\<close>

type_synonym init = "nat list \<Rightarrow> nat \<Rightarrow> nat \<Rightarrow> val"

definition Linear_init :: "init \<Rightarrow> nat list \<Rightarrow> int \<Rightarrow> int \<Rightarrow> Linear result" where
  "Linear_init \<theta> path in_f out_f =
     (if in_f < 0 \<or> out_f < 0 then Inl RuntimeError
      else Inr \<lparr>in_features = nat in_f, out_features = nat out_f,
                 weight = \<theta> (path @ [0]), bias = \<theta> (path @ [1]) 0\<rparr>)"

definition LayerNorm_init :: "init \<Rightarrow> nat list \<Rightarrow> int \<Rightarrow> LayerNorm result" where
  "LayerNorm_init \<theta> path d =
     (if d < 0 then Inl RuntimeError
      else Inr \<lparr>normalized_shape = nat d, ln_weight = \<theta> (path @ [0]) 0,
                 ln_bias = \<theta> (path @ [1]) 0, eps = 1 / 100000\<rparr>)"

definition Dropout_init :: "real \<Rightarrow> module result" where
  "Dropout_init p = (if p < 0 \<or> 1 < p then Inl ValueError else Inr (MDropout p))"

definition SelfAttention_init ::
  "init \<Rightarrow> nat list \<Rightarrow> int \<Rightarrow> int \<Rightarrow> SelfAttention result" where
  "SelfAttention_init \<theta> path d_model' output_size =
     bindE (Linear_init \<theta> (path @ [0]) d_model' output_size) (\<lambda>query'.
     bindE (Linear_init \<theta> (path @ [1]) d_model' output_size) (\<lambda>key'.
     bindE (Linear_init \<theta> (path @ [2]) d_model' output_size) (\<lambda>value'.
     bindE (Dropout_init (3 / 10)) (\<lambda>dropout'.
     Inr \<lparr>query = query', key = key', value_lin = value'\<rparr>))))"

definition MultiHeadedAttention_init ::
  "init \<Rightarrow> nat list \<Rightarrow> int \<Rightarrow> int \<Rightarrow> real \<Rightarrow> MultiHeadedAttention result" where
  "MultiHeadedAttention_init \<theta> path d_model' num_heads' dropout' =
     (if num_heads' = 0 then Inl ZeroDivisionError
      else
        let attn_output_size' = d_model' div num_heads' in
        bindE (mapE (\<lambda>h. SelfAttention_init \<theta> (path @ [0, h]) d_model' attn_output_size')
                 [0..<nat num_heads']) (\<lambda>attentions'.
        bindE (Linear_init \<theta> (path @ [1]) d_model' d_model') (\<lambda>output'.
        Inr \<lparr>d_model = d_model', num_heads = num_heads', dropout = dropout',
             attn_output_size = attn_output_size', attentions = attentions',
             output_lin = output'\<rparr>)))"

definition ffn_init ::
  "init \<Rightarrow> nat list \<Rightarrow> int \<Rightarrow> int \<Rightarrow> real \<Rightarrow> module list result" where
  "ffn_init \<theta> path d_model' d_ff dropout' =
     bindE (Linear_init \<theta> (path @ [0]) d_model' d_ff) (\<lambda>l0.
     bindE (Dropout_init dropout') (\<lambda>l2.
     bindE (Linear_init \<theta> (path @ [3]) d_ff d_model') (\<lambda>l3.
     bindE (Dropout_init dropout') (\<lambda>l4.
     Inr [MLinear l0, MReLU, l2, MLinear l3, l4]))))"

definition EncoderLayer_init ::
  "init \<Rightarrow> nat list \<Rightarrow> int \<Rightarrow> int \<Rightarrow> int \<Rightarrow> real \<Rightarrow> EncoderLayer result" where
  "EncoderLayer_init \<theta> path d_model' num_heads' d_ff dropout' =
     bindE (MultiHeadedAttention_init \<theta> (path @ [0]) d_model' num_heads' dropout') (\<lambda>attn'.
     bindE (ffn_init \<theta> (path @ [1]) d_model' d_ff dropout') (\<lambda>ffn'.
     bindE (LayerNorm_init \<theta> (path @ [2]) d_model') (\<lambda>attn_norm'.
     bindE (LayerNorm_init \<theta> (path @ [3]) d_model') (\<lambda>ffn_norm'.
     Inr \<lparr>attn = attn', ffn = ffn', attn_norm = attn_norm', ffn_norm = ffn_norm'\<rparr>))))"

definition DecoderLayer_init ::
  "init \<Rightarrow> nat list \<Rightarrow> int \<Rightarrow> int \<Rightarrow> int \<Rightarrow> real \<Rightarrow> DecoderLayer result" where
  "DecoderLayer_init \<theta> path d_model' num_heads' d_ff dropout' =
     bindE (MultiHeadedAttention_init \<theta> (path @ [0]) d_model' num_heads' dropout') (\<lambda>masked_attn'.
     bindE (MultiHeadedAttention_init \<theta> (path @ [1]) d_model' num_heads' dropout') (\<lambda>attn'.
     bindE (ffn_init \<theta> (path @ [2]) d_model' d_ff dropout') (\<lambda>ffn'.
     bindE (LayerNorm_init \<theta> (path @ [3]) d_model') (\<lambda>masked_attn_norm'.
     bindE (LayerNorm_init \<theta> (path @ [4]) d_model') (\<lambda>attn_norm'.
     bindE (LayerNorm_init \<theta> (path @ [5]) d_model') (\<lambda>ffn_norm'.
     Inr \<lparr>masked_attn = masked_attn', dec_attn = attn', dec_ffn = ffn',
          masked_attn_norm = masked_attn_norm', dec_attn_norm = attn_norm',
          dec_ffn_norm = ffn_norm'\<rparr>))))))"

text \<open>
  \<^verbatim>\<open>Encoder\<close> and \<^verbatim>\<open>Decoder\<close> build their layers with the defaults \<^verbatim>\<open>d_ff=2048\<close> and
  \<^verbatim>\<open>dropout=0.3\<close>; \<^verbatim>\<open>range(n)\<close> is empty for \<open>n \<le> 0\<close>.
\<close>

definition Encoder_init :: "init \<Rightarrow> nat list \<Rightarrow> int \<Rightarrow> int \<Rightarrow> int \<Rightarrow> Encoder result" where
  "Encoder_init \<theta> path d_model' num_heads' num_encoders =
     bindE (mapE (\<lambda>n. EncoderLayer_init \<theta> (path @ [n]) d_model' num_heads' 2048 (3 / 10))
              [0..<nat num_encoders]) (\<lambda>layers.
     Inr \<lparr>enc_layers = layers\<rparr>)"

definition Decoder_init :: "init \<Rightarrow> nat list \<Rightarrow> int \<Rightarrow> int \<Rightarrow> int \<Rightarrow> Decoder result" where
  "Decoder_init \<theta> path d_model' num_heads' num_decoders =
     bindE (mapE (\<lambda>n. DecoderLayer_init \<theta> (path @ [n]) d_model' num_heads' 2048 (3 / 10))
              [0..<nat num_decoders]) (\<lambda>layers.
     Inr \<lparr>dec_layers = layers\<rparr>)"

definition Transformer_init :: "init \<Rightarrow> int \<Rightarrow> int \<Rightarrow> int \<Rightarrow> int \<Rightarrow> Transformer result" where
  "Transformer_init \<theta> d_model' num_heads' num_encoders num_decoders =
     bindE (Encoder_init \<theta> [0] d_model' num_heads' num_encoders) (\<lambda>encoder'.
     bindE (Decoder_init \<theta> [1] d_model' num_heads' num_decoders) (\<lambda>decoder'.
     Inr \<lparr>encoder = encoder', decoder = decoder'\<rparr>))"

section \<open>Predicates used in the statements\<close>

fun finite_val :: "val \<Rightarrow> bool" where
  "finite_val (Fin x) = True"
| "finite_val NaN = False"

definition finite_tensor :: "val tensor \<Rightarrow> bool" where
  "finite_tensor t =
     list_all (\<lambda>b. list_all (\<lambda>i. list_all (\<lambda>c. finite_val (entry t b i c)) [0..<dim2 t])
                   [0..<dim1 t]) [0..<dim0 t]"

definition finite_Linear :: "Linear \<Rightarrow> bool" where
  "finite_Linear L =
     list_all (\<lambda>k. finite_val (bias L k)
                  \<and> list_all (\<lambda>c. finite_val (weight L k c)) [0..<in_features L])
       [0..<out_features L]"

text \<open>The local \<^verbatim>\<open>scores\<close> of \<^verbatim>\<open>SelfAttention.forward\<close> as line 113 leaves it.\<close>

definition SelfAttention_scores ::
  "SelfAttention \<Rightarrow> val tensor \<Rightarrow> val tensor \<Rightarrow> val tensor result" where
  "SelfAttention_scores A q k =
     bindE (Linear_forward (query A) q) (\<lambda>query'.
     bindE (Linear_forward (key A) k) (\<lambda>key'.
     attention_scores query' key'))"

text \<open>
  Two properties of a stateful computation: it leaves the module tree and the training flag
  as they were; and, run with the training flag off, it returns one and the same result
  and leaves the whole state as it was.
\<close>

definition keeps_model :: "('m, 'a) M \<Rightarrow> bool" where
  "keeps_model F = (\<forall>s. model (snd (F s)) = model s \<and> training (snd (F s)) = training s)"

definition eval_pure :: "('m, 'a) M \<Rightarrow> bool" where
  "eval_pure F = (\<exists>r. \<forall>s. training s \<or> F s = (r, s))"

text \<open>A result that is a value or a \<open>RuntimeError\<close>, for a pure and for a stateful computation.\<close>

definition ok_or_RuntimeError :: "'a result \<Rightarrow> bool" where
  "ok_or_RuntimeError r = (case r of Inl e \<Rightarrow> e = RuntimeError | Inr x \<Rightarrow> True)"

definition runtime_only :: "('m, 'a) M \<Rightarrow> bool" where
  "runtime_only F = (\<forall>s. ok_or_RuntimeError (fst (F s)))"

text \<open>
  Shapes under which nothing raises.  A mask fits a call with the given batch size, query
  length and key length when lines 117 to 123 accept it: its rows and columns expand to the
  batch size and the key length, and the square causal mask broadcasts against the scores.
  A layer with a single head fits the width \<open>d\<close> when every projection, norm and feed-forward
  map in it has the sizes the constructors give with \<^verbatim>\<open>num_heads = 1\<close>.
\<close>

definition mask_fits :: "int tensor2 option \<Rightarrow> nat \<Rightarrow> nat \<Rightarrow> nat \<Rightarrow> bool" where
  "mask_fits mask' bs tgt_len seq_len =
     (case mask' of
        None \<Rightarrow> True
      | Some m \<Rightarrow> expandable (rows m) bs \<and> expandable (cols m) seq_len
                  \<and> (seq_len = tgt_len \<or> tgt_len = 1))"

definition head_fits :: "SelfAttention \<Rightarrow> nat \<Rightarrow> bool" where
  "head_fits A d =
     (in_features (query A) = d \<and> in_features (key A) = d \<and> in_features (value_lin A) = d
      \<and> out_features (query A) = out_features (key A) \<and> out_features (value_lin A) = d)"

definition one_head_fits :: "MultiHeadedAttention \<Rightarrow> nat \<Rightarrow> bool" where
  "one_head_fits M d =
     (case attentions M of
        [A] \<Rightarrow> head_fits A d \<and> in_features (output_lin M) = d \<and> out_features (output_lin M) = d
      | _ \<Rightarrow> False)"

fun ffn_fits :: "module list \<Rightarrow> nat \<Rightarrow> bool" where
  "ffn_fits [MLinear l0, MReLU, MDropout p, MLinear l3, MDropout p'] d =
     (in_features l0 = d \<and> out_features l0 = in_features l3 \<and> out_features l3 = d)"
| "ffn_fits ms d = False"

definition EncoderLayer_fits :: "EncoderLayer \<Rightarrow> nat \<Rightarrow> bool" where
  "EncoderLayer_fits L d =
     (one_head_fits (attn L) d \<and> ffn_fits (ffn L) d
      \<and> normalized_shape (attn_norm L) = d \<and> normalized_shape (ffn_norm L) = d)"

definition DecoderLayer_fits :: "DecoderLayer \<Rightarrow> nat \<Rightarrow> bool" where
  "DecoderLayer_fits L d =
     (one_head_fits (masked_attn L) d \<and> one_head_fits (dec_attn L) d \<and> ffn_fits (dec_ffn L) d
      \<and> normalized_shape (masked_attn_norm L) = d \<and> normalized_shape (dec_attn_norm L) = d
      \<and> normalized_shape (dec_ffn_norm L) = d)"

section \<open>Concrete inputs\<close>

text \<open>
  A head with \<^verbatim>\<open>d_model = 1\<close> and \<^verbatim>\<open>output_size = 1\<close> whose three projections are the
  identity, the input \<^verbatim>\<open>[[[0.], [1.]]]\<close> (one batch element, two positions), and the masks
  \<^verbatim>\<open>[[1, 1]]\<close> and \<^verbatim>\<open>[[1, 0]]\<close>.
\<close>

definition example_Linear :: Linear where
  "example_Linear =
     \<lparr>in_features = 1, out_features = 1, weight = (\<lambda>k c. Fin 1), bias = (\<lambda>k. Fin 0)\<rparr>"

definition example_head :: SelfAttention where
  "example_head = \<lparr>query = example_Linear, key = example_Linear, value_lin = example_Linear\<rparr>"

definition example_x :: "val tensor" where
  "example_x = Tensor 1 2 1 (\<lambda>b i c. Fin (real i))"

definition mask_11 :: "int tensor2" where
  "mask_11 = Tensor2 1 2 (\<lambda>b j. 1)"

definition mask_10 :: "int tensor2" where
  "mask_10 = Tensor2 1 2 (\<lambda>b j. if j = 0 then 1 else 0)"

text \<open>\<^verbatim>\<open>t.tolist()\<close>, to show a small tensor entry by entry.\<close>

definition tolist :: "'a tensor \<Rightarrow> 'a list list list" where
  "tolist t = map (\<lambda>b. map (\<lambda>i. map (entry t b i) [0..<dim2 t]) [0..<dim1 t]) [0..<dim0 t]"

text \<open>
  Parameters that are all the same number, the tensor \<^verbatim>\<open>torch.zeros((b, n, d))\<close>, and a state
  in evaluation mode whose generator hands out the draw \<open>u\<close> for ever.
\<close>

definition const_init :: "real \<Rightarrow> init" where
  "const_init c path i j = Fin c"

definition zeros :: "nat \<Rightarrow> nat \<Rightarrow> nat \<Rightarrow> val tensor" where
  "zeros b n d = Tensor b n d (\<lambda>x y z. Fin 0)"

definition eval_state :: "'m \<Rightarrow> real \<Rightarrow> 'm state" where
  "eval_state T u = \<lparr>model = T, training = False, rng = (\<lambda>n. u)\<rparr>"

section \<open>Basic facts about the operations\<close>

lemma bindE_simps [simp]: "bindE (Inr x) f = f x" "bindE (Inl e) f = Inl e"
  by (simp_all add: bindE_def)

lemma bindE_eq_Inr: "bindE m f = Inr y \<longleftrightarrow> (\<exists>x. m = Inr x \<and> f x = Inr y)"
  by (cases m) simp_all

lemma Linear_forward_Inr:
  "Linear_forward L x = Inr y \<Longrightarrow>
     dim2 x = in_features L \<and> dim0 y = dim0 x \<and> dim1 y = dim1 x \<and> dim2 y = out_features L"
  by (auto simp: Linear_forward_def split: if_splits)

lemma attention_scores_Inr:
  assumes "attention_scores Q K = Inr S"
  shows "dim0 K = dim0 Q" "dim2 K = dim2 Q" "dim0 S = dim0 Q" "dim1 S = dim1 Q" "dim2 S = dim1 K"
    "entry S b i j = vdiv (vsum (map (\<lambda>c. vmul (entry Q b i c) (entry K b j c)) [0..<dim2 Q]))
                      (sqrt (real (dim2 K)))"
  using assms
  by (auto simp: attention_scores_def bmm_def transpose12_def div_scalar_def Let_def
      split: if_splits)

lemma bidx_lt: "i < n \<Longrightarrow> bidx n i = i"
  by (auto simp: bidx_def)

lemma subsequent_mask_cell:
  "cell (subsequent_mask n) i j = (if i < j then 0 else 1)"
  "rows (subsequent_mask n) = n" "cols (subsequent_mask n) = n"
  by (auto simp: subsequent_mask_def rsub_def triu_def ones_def)

lemma apply_mask_Inr:
  assumes "apply_mask S bs n n m = Inr S'"
      and "dim0 S = bs" "dim1 S = n" "dim2 S = n" "rows m = bs" "cols m = n"
  shows "dim0 S' = bs" "dim1 S' = n" "dim2 S' = n"
    "b < bs \<Longrightarrow> i < n \<Longrightarrow> j < n \<Longrightarrow>
       entry S' b i j = (if cell m b j = 0 \<or> i < j then NegInf else entry S b i j)"
  using assms
  by (auto simp: apply_mask_def expand_def unsqueeze0_def unsqueeze1_def expandable_def
      masked_fill_def broadcastable_def broadcast_dim_def eq0_def subsequent_mask_cell bidx_lt
      bindE_eq_Inr split: if_splits)


lemma expw_nonneg: "0 \<le> expw x"
  by (cases x rule: expw.cases) simp_all

lemma sum_list_expw_nonneg: "0 \<le> sum_list (map expw xs)"
  by (induction xs) (simp_all add: expw_nonneg)

lemma not_all_neginf: "x \<in> set xs \<Longrightarrow> \<not> is_neginf x \<Longrightarrow> \<not> list_all is_neginf xs"
  unfolding list_all_iff by blast

lemma softmax1_all_neginf: "list_all is_neginf xs \<Longrightarrow> softmax1 xs x = NaN"
  by (simp add: softmax1_def)

lemma softmax1_NegInf:
  "\<not> list_ex is_nan xs \<Longrightarrow> \<not> list_all is_neginf xs \<Longrightarrow> softmax1 xs NegInf = Fin 0"
  by (simp add: softmax1_def)

lemma SelfAttention_weights_Some:
  assumes W: "SelfAttention_weights A q k v (Some m) = Inr W"
      and sh: "dim1 k = dim1 q" "rows m = dim0 q" "cols m = dim1 q"
  shows "\<exists>S. SelfAttention_scores A q k = Inr S
            \<and> dim0 S = dim0 q \<and> dim1 S = dim1 q \<and> dim2 S = dim1 q
            \<and> dim0 W = dim0 q \<and> dim1 W = dim1 q \<and> dim2 W = dim1 q
            \<and> (\<forall>b i j. b < dim0 q \<and> i < dim1 q \<and> j < dim1 q \<longrightarrow>
                 entry W b i j =
                   softmax1 (map (\<lambda>i'. if cell m b j = 0 \<or> i' < j then NegInf
                                        else Sc (entry S b i' j)) [0..<dim1 q])
                     (if cell m b j = 0 \<or> i < j then NegInf else Sc (entry S b i j)))"
proof -
  from W obtain Q K V S S' where
    Q: "Linear_forward (query A) q = Inr Q" and K: "Linear_forward (key A) k = Inr K"
    and V: "Linear_forward (value_lin A) v = Inr V" and S: "attention_scores Q K = Inr S"
    and S': "apply_mask (to_score S) (dim0 q) (dim1 q) (dim1 k) m = Inr S'"
    and Weq: "W = softmax_dim1 S'"
    by (auto simp: SelfAttention_weights_def SelfAttention_locals_def Let_def bindE_eq_Inr)
  have dS: "dim0 S = dim0 q" "dim1 S = dim1 q" "dim2 S = dim1 q"
    using attention_scores_Inr(3,4,5) [OF S] Linear_forward_Inr [OF Q] Linear_forward_Inr [OF K] sh
    by auto
  have sc: "SelfAttention_scores A q k = Inr S"
    by (simp add: SelfAttention_scores_def Q K S)
  have dts: "dim0 (to_score S) = dim0 q" "dim1 (to_score S) = dim1 q" "dim2 (to_score S) = dim1 q"
    using dS by (simp_all add: to_score_def)
  note am = apply_mask_Inr [OF S' [unfolded sh(1)] dts sh(2,3)]
  have dW: "dim0 W = dim0 q" "dim1 W = dim1 q" "dim2 W = dim1 q"
    using am(1,2,3) by (simp_all add: Weq softmax_dim1_def)
  have ent: "entry W b i j =
      softmax1 (map (\<lambda>i'. if cell m b j = 0 \<or> i' < j then NegInf else Sc (entry S b i' j))
                  [0..<dim1 q])
        (if cell m b j = 0 \<or> i < j then NegInf else Sc (entry S b i j))"
    if "b < dim0 q" "i < dim1 q" "j < dim1 q" for b i j
  proof -
    have col: "map (\<lambda>i'. entry S' b i' j) [0..<dim1 q] =
          map (\<lambda>i'. if cell m b j = 0 \<or> i' < j then NegInf else Sc (entry S b i' j)) [0..<dim1 q]"
      using that am(4) by (auto simp: to_score_def)
    have cur: "entry S' b i j = (if cell m b j = 0 \<or> i < j then NegInf else Sc (entry S b i j))"
      using that am(4) by (auto simp: to_score_def)
    have "entry W b i j = softmax1 (map (\<lambda>i'. entry S' b i' j) [0..<dim1 q]) (entry S' b i j)"
      by (simp add: Weq softmax_dim1_def am(2))
    then show ?thesis
      unfolding col cur .
  qed
  show ?thesis using sc dS dW ent by blast
qed


lemma finite_val_iff: "finite_val x \<longleftrightarrow> (\<exists>r. x = Fin r)"
  by (cases x) simp_all

lemma finite_tensor_iff:
  "finite_tensor t \<longleftrightarrow> (\<forall>b<dim0 t. \<forall>i<dim1 t. \<forall>c<dim2 t. finite_val (entry t b i c))"
  by (auto simp: finite_tensor_def list_all_iff)

lemma finite_Linear_iff:
  "finite_Linear L \<longleftrightarrow>
     (\<forall>k<out_features L. finite_val (bias L k) \<and> (\<forall>c<in_features L. finite_val (weight L k c)))"
  by (auto simp: finite_Linear_def list_all_iff)

lemma vadd_finite: "finite_val x \<Longrightarrow> finite_val y \<Longrightarrow> finite_val (vadd x y)"
  by (auto simp: finite_val_iff)

lemma vmul_finite: "finite_val x \<Longrightarrow> finite_val y \<Longrightarrow> finite_val (vmul x y)"
  by (auto simp: finite_val_iff)

lemma vsum_finite: "list_all finite_val xs \<Longrightarrow> finite_val (vsum xs)"
  by (induction xs) (auto simp: vsum_def vadd_finite)

lemma vsum_map_finite:
  "(\<And>c. c < n \<Longrightarrow> finite_val (f c)) \<Longrightarrow> finite_val (vsum (map f [0..<n]))"
  by (rule vsum_finite) (simp add: list_all_iff)

lemma Linear_forward_finite:
  assumes "Linear_forward L x = Inr y" "finite_tensor x" "finite_Linear L"
  shows "finite_tensor y"
proof -
  from assms(1) have d: "dim2 x = in_features L"
    and y: "y = Tensor (dim0 x) (dim1 x) (out_features L)
                 (\<lambda>b i k. vadd (vsum (map (\<lambda>c. vmul (entry x b i c) (weight L k c))
                                        [0..<in_features L])) (bias L k))"
    by (auto simp: Linear_forward_def split: if_splits)
  show ?thesis
    unfolding finite_tensor_iff y tensor.sel
  proof (intro allI impI)
    fix b i k assume b: "b < dim0 x" and i: "i < dim1 x" and k: "k < out_features L"
    have "finite_val (vmul (entry x b i c) (weight L k c))" if "c < in_features L" for c
      using that assms(2,3) b i k d by (auto simp: finite_tensor_iff finite_Linear_iff vmul_finite)
    then have "finite_val (vsum (map (\<lambda>c. vmul (entry x b i c) (weight L k c)) [0..<in_features L]))"
      by (rule vsum_map_finite)
    moreover have "finite_val (bias L k)"
      using assms(3) k by (auto simp: finite_Linear_iff)
    ultimately show "finite_val (vadd (vsum (map (\<lambda>c. vmul (entry x b i c) (weight L k c))
                                        [0..<in_features L])) (bias L k))"
      by (rule vadd_finite)
  qed
qed

lemma attention_scores_finite:
  assumes S: "attention_scores Q K = Inr S" and "finite_tensor Q" "finite_tensor K" "0 < dim2 K"
    and "b < dim0 S" "i < dim1 S" "j < dim2 S"
  shows "finite_val (entry S b i j)"
proof -
  note f = attention_scores_Inr [OF S]
  have "finite_val (vmul (entry Q b i c) (entry K b j c))" if "c < dim2 Q" for c
    using that assms(2-7) f(1-5) by (auto simp: finite_tensor_iff vmul_finite)
  then have "finite_val (vsum (map (\<lambda>c. vmul (entry Q b i c) (entry K b j c)) [0..<dim2 Q]))"
    by (rule vsum_map_finite)
  moreover have "sqrt (real (dim2 K)) \<noteq> 0"
    using assms(4) by simp
  ultimately show ?thesis
    unfolding f(6) by (auto simp: finite_val_iff)
qed

lemma SelfAttention_scores_finite:
  assumes S: "SelfAttention_scores A q k = Inr S"
    and fin: "finite_tensor q" "finite_tensor k" "finite_Linear (query A)" "finite_Linear (key A)"
    and pos: "0 < out_features (key A)"
    and idx: "b < dim0 S" "i < dim1 S" "j < dim2 S"
  shows "finite_val (entry S b i j)"
proof -
  from S obtain Q K where Q: "Linear_forward (query A) q = Inr Q"
    and K: "Linear_forward (key A) k = Inr K" and QK: "attention_scores Q K = Inr S"
    by (auto simp: SelfAttention_scores_def bindE_eq_Inr)
  have "finite_tensor Q" "finite_tensor K"
    using Linear_forward_finite [OF Q fin(1,3)] Linear_forward_finite [OF K fin(2,4)] .
  moreover have "0 < dim2 K"
    using Linear_forward_Inr [OF K] pos by simp
  ultimately show ?thesis
    using attention_scores_finite [OF QK _ _ _ idx] by blast
qed

lemma masked_key_weight_NaN:
  assumes W: "SelfAttention_weights A q k v (Some m) = Inr W"
      and sh: "dim1 k = dim1 q" "rows m = dim0 q" "cols m = dim1 q"
      and idx: "b < dim0 q" "i < dim1 q" "j < dim1 q"
      and z: "cell m b j = 0"
  shows "entry W b i j = NaN"
proof -
  from SelfAttention_weights_Some [OF W sh] idx obtain S where
    "entry W b i j =
       softmax1 (map (\<lambda>i'. if cell m b j = 0 \<or> i' < j then NegInf else Sc (entry S b i' j))
                  [0..<dim1 q])
         (if cell m b j = 0 \<or> i < j then NegInf else Sc (entry S b i j))"
    by blast
  then show ?thesis
    using z by (simp add: softmax1_all_neginf list_all_iff)
qed

lemma later_key_weight_zero:
  assumes W: "SelfAttention_weights A q k v (Some m) = Inr W"
      and sh: "dim1 k = dim1 q" "rows m = dim0 q" "cols m = dim1 q"
      and fin: "finite_tensor q" "finite_tensor k" "finite_Linear (query A)" "finite_Linear (key A)"
      and pos: "0 < out_features (key A)"
      and idx: "b < dim0 q" "i < j" "j < dim1 q"
      and nz: "cell m b j \<noteq> 0"
  shows "entry W b i j = Fin 0"
proof -
  from SelfAttention_weights_Some [OF W sh] obtain S where
    S: "SelfAttention_scores A q k = Inr S" and dS: "dim0 S = dim0 q" "dim1 S = dim1 q" "dim2 S = dim1 q"
    and ent: "\<And>b i j. b < dim0 q \<Longrightarrow> i < dim1 q \<Longrightarrow> j < dim1 q \<Longrightarrow> entry W b i j =
       softmax1 (map (\<lambda>i'. if cell m b j = 0 \<or> i' < j then NegInf else Sc (entry S b i' j))
                  [0..<dim1 q])
         (if cell m b j = 0 \<or> i < j then NegInf else Sc (entry S b i j))"
    by blast
  let ?col = "map (\<lambda>i'. if cell m b j = 0 \<or> i' < j then NegInf else Sc (entry S b i' j)) [0..<dim1 q]"
  have finS: "finite_val (entry S b i' j)" if "i' < dim1 q" for i'
    using SelfAttention_scores_finite [OF S fin pos] that idx dS by simp
  have nonan: "\<not> list_ex is_nan ?col"
  proof -
    have "\<not> is_nan (if cell m b j = 0 \<or> i' < j then NegInf else Sc (entry S b i' j))"
      if "i' < dim1 q" for i'
      using finS [OF that] by (auto simp: finite_val_iff)
    then show ?thesis unfolding list_ex_iff by fastforce
  qed
  have "Sc (entry S b j j) \<in> set ?col"
    using idx(3) nz by (auto simp: image_iff intro!: bexI [of _ j])
  then have "\<not> list_all is_neginf ?col"
    by (rule not_all_neginf) simp
  with nonan have "softmax1 ?col NegInf = Fin 0"
    by (rule softmax1_NegInf)
  then show ?thesis
    using ent [of b i j] idx by simp
qed

lemma vsum_Cons: "vsum (x # xs) = vadd x (vsum xs)"
  by (simp add: vsum_def)

lemma vsum_all_zero: "(\<And>x. x \<in> set xs \<Longrightarrow> x = Fin 0) \<Longrightarrow> vsum xs = Fin 0"
proof (induction xs)
  case Nil
  then show ?case by (simp add: vsum_def)
next
  case (Cons a xs)
  then have "a = Fin 0" "vsum xs = Fin 0" by auto
  then show ?case by (simp add: vsum_Cons)
qed

lemma SelfAttention_weights_None:
  assumes W: "SelfAttention_weights A q k v None = Inr W"
  shows "\<exists>S. SelfAttention_scores A q k = Inr S
            \<and> dim0 S = dim0 q \<and> dim1 S = dim1 q \<and> dim2 S = dim1 k
            \<and> W = softmax_dim1 (to_score S)"
proof -
  from W obtain Q K V S where
    Q: "Linear_forward (query A) q = Inr Q" and K: "Linear_forward (key A) k = Inr K"
    and S: "attention_scores Q K = Inr S" and Weq: "W = softmax_dim1 (to_score S)"
    by (auto simp: SelfAttention_weights_def SelfAttention_locals_def Let_def bindE_eq_Inr)
  have "dim0 S = dim0 q" "dim1 S = dim1 q" "dim2 S = dim1 k"
    using attention_scores_Inr(3,4,5) [OF S] Linear_forward_Inr [OF Q] Linear_forward_Inr [OF K]
    by auto
  moreover have "SelfAttention_scores A q k = Inr S"
    by (simp add: SelfAttention_scores_def Q K S)
  ultimately show ?thesis using Weq by blast
qed

lemma first_query_row_sum:
  assumes W: "SelfAttention_weights A q k v (Some m) = Inr W"
      and sh: "dim1 k = dim1 q" "rows m = dim0 q" "cols m = dim1 q"
      and fin: "finite_tensor q" "finite_tensor k" "finite_Linear (query A)" "finite_Linear (key A)"
      and pos: "0 < out_features (key A)"
      and ones: "\<And>j. j < dim1 q \<Longrightarrow> cell m b j \<noteq> 0"
      and idx: "b < dim0 q" "2 \<le> dim1 q"
  shows "\<exists>r<1. vsum (map (entry W b 0) [0..<dim2 W]) = Fin r"
proof -
  from SelfAttention_weights_Some [OF W sh] obtain S where
    S: "SelfAttention_scores A q k = Inr S" and dS: "dim0 S = dim0 q" "dim1 S = dim1 q" "dim2 S = dim1 q"
    and dW: "dim2 W = dim1 q"
    and ent: "\<And>b i j. b < dim0 q \<Longrightarrow> i < dim1 q \<Longrightarrow> j < dim1 q \<Longrightarrow> entry W b i j =
       softmax1 (map (\<lambda>i'. if cell m b j = 0 \<or> i' < j then NegInf else Sc (entry S b i' j))
                  [0..<dim1 q])
         (if cell m b j = 0 \<or> i < j then NegInf else Sc (entry S b i j))"
    by blast
  define n where "n = dim1 q"
  have n2: "2 \<le> n" using idx(2) by (simp add: n_def)
  have finS: "finite_val (entry S b i' 0)" if "i' < n" for i'
    using SelfAttention_scores_finite [OF S fin pos] that idx dS n2 by (simp add: n_def)
  obtain r0 where r0: "entry S b 0 0 = Fin r0"
    using finS [of 0] n2 by (auto simp: finite_val_iff)
  obtain r1 where r1: "entry S b (Suc 0) 0 = Fin r1"
    using finS [of "Suc 0"] n2 by (auto simp: finite_val_iff)
  let ?col = "map (\<lambda>i'. Sc (entry S b i' 0)) [0..<n]"
  have split: "[0..<n] = 0 # Suc 0 # [2..<n]"
    using n2 by (simp add: upt_rec [of 0 n] upt_rec [of "Suc 0" n] numeral_2_eq_2)
  have "\<not> is_nan (Sc (entry S b i' 0))" if "i' < n" for i'
    using finS [OF that] by (auto simp: finite_val_iff)
  then have nonan: "\<not> list_ex is_nan ?col"
    unfolding list_ex_iff by fastforce
  have nall: "\<not> list_all is_neginf ?col"
    by (simp add: split)
  have "sum_list (map expw ?col) = exp r0 + (exp r1 + sum_list (map expw (map (\<lambda>i'. Sc (entry S b i' 0)) [2..<n])))"
    by (simp add: split r0 r1)
  then have big: "exp r0 < sum_list (map expw ?col)"
    using sum_list_expw_nonneg [of "map (\<lambda>i'. Sc (entry S b i' 0)) [2..<n]"] exp_gt_zero [of r1]
    by linarith
  have w00: "entry W b 0 0 = Fin (exp r0 / sum_list (map expw ?col))"
    using ent [of b 0 0] idx n2 ones [of 0] nonan nall
    by (simp add: n_def [symmetric] r0 softmax1_def)
  have lt1: "exp r0 / sum_list (map expw ?col) < 1"
  proof -
    have "0 < sum_list (map expw ?col)"
      using big exp_gt_zero [of r0] by linarith
    then show ?thesis using big by (simp only: divide_less_eq_1_pos)
  qed
  have rest: "entry W b 0 j = Fin 0" if "0 < j" "j < n" for j
    using later_key_weight_zero [OF W sh fin pos idx(1) that(1)] that(2) ones [of j]
    by (simp add: n_def)
  have "vsum (map (entry W b 0) [1..<n]) = Fin 0"
    by (rule vsum_all_zero) (auto simp: rest)
  then have "vsum (map (entry W b 0) [0..<n]) = Fin (exp r0 / sum_list (map expw ?col))"
    using n2 by (simp add: upt_rec [of 0 n] vsum_Cons w00)
  with lt1 show ?thesis
    by (auto simp: dW n_def)
qed

lemma SelfAttention_weights_succeeds:
  assumes "dim2 q = in_features (query A)" "dim2 k = in_features (key A)"
    "dim2 v = in_features (value_lin A)" "out_features (query A) = out_features (key A)"
    "dim0 k = dim0 q" "dim1 k = dim1 q" "rows m = dim0 q" "cols m = dim1 q"
  shows "\<exists>W. SelfAttention_weights A q k v (Some m) = Inr W"
  using assms
  by (simp add: SelfAttention_weights_def SelfAttention_locals_def Let_def Linear_forward_def
      attention_scores_def bmm_def transpose12_def div_scalar_def to_score_def apply_mask_def
      expand_def unsqueeze0_def unsqueeze1_def expandable_def subsequent_mask_cell
      masked_fill_def broadcastable_def broadcast_dim_def eq0_def)

lemma SelfAttention_weights_None_succeeds:
  assumes "dim2 q = in_features (query A)" "dim2 k = in_features (key A)"
    "dim2 v = in_features (value_lin A)" "out_features (query A) = out_features (key A)"
    "dim0 k = dim0 q"
  shows "\<exists>W. SelfAttention_weights A q k v None = Inr W"
  using assms
  by (simp add: SelfAttention_weights_def SelfAttention_locals_def Let_def Linear_forward_def
      attention_scores_def bmm_def transpose12_def div_scalar_def to_score_def)

lemma example_finite:
  "finite_tensor example_x" "finite_Linear example_Linear"
  by (simp_all add: finite_tensor_iff finite_Linear_iff example_x_def example_Linear_def)

lemma example_head_sel:
  "query example_head = example_Linear" "key example_head = example_Linear"
  "value_lin example_head = example_Linear"
  "in_features example_Linear = 1" "out_features example_Linear = 1"
  "dim0 example_x = 1" "dim1 example_x = 2" "dim2 example_x = 1"
  "rows mask_11 = 1" "cols mask_11 = 2" "rows mask_10 = 1" "cols mask_10 = 2"
  by (simp_all add: example_head_def example_Linear_def example_x_def mask_11_def mask_10_def)

lemma example_ok:
  "\<exists>W. SelfAttention_weights example_head example_x example_x example_x (Some mask_11) = Inr W"
  "\<exists>W. SelfAttention_weights example_head example_x example_x example_x (Some mask_10) = Inr W"
  "\<exists>W. SelfAttention_weights example_head example_x example_x example_x None = Inr W"
  using SelfAttention_weights_succeeds [of example_x example_head example_x example_x mask_11]
    SelfAttention_weights_succeeds [of example_x example_head example_x example_x mask_10]
    SelfAttention_weights_None_succeeds [of example_x example_head example_x example_x]
  by (simp_all add: example_head_sel)

text \<open>
  The weights the example head computes, by evaluation: with the mask \<^verbatim>\<open>[[1, 1]]\<close> and with
  the mask \<^verbatim>\<open>[[1, 0]]\<close>.  Rows are query positions, columns are key positions; it is the
  columns that sum to 1, or are NaN.
\<close>

lemma upt_2: "[0..<2] = [0, Suc 0]"
  by (simp add: numeral_2_eq_2)

lemma example_weights:
  "bindE (SelfAttention_weights example_head example_x example_x example_x (Some mask_11))
     (\<lambda>W. Inr (tolist W)) = Inr [[[Fin (1 / 2), Fin 0], [Fin (1 / 2), Fin 1]]]"
  "bindE (SelfAttention_weights example_head example_x example_x example_x (Some mask_10))
     (\<lambda>W. Inr (tolist W)) = Inr [[[Fin (1 / 2), NaN], [Fin (1 / 2), NaN]]]"
  by (simp_all add: SelfAttention_weights_def SelfAttention_locals_def Let_def Linear_forward_def
      attention_scores_def bmm_def transpose12_def div_scalar_def to_score_def apply_mask_def
      expand_def unsqueeze0_def unsqueeze1_def expandable_def subsequent_mask_cell
      masked_fill_def broadcastable_def broadcast_dim_def eq0_def softmax_dim1_def softmax1_def
      bidx_def vsum_def tolist_def upt_2
      example_head_def example_Linear_def example_x_def mask_11_def mask_10_def)

section \<open>Construction succeeds or fails as follows\<close>

lemma mapE_ok: "(\<And>x. x \<in> set xs \<Longrightarrow> f x = Inr (g x)) \<Longrightarrow> mapE f xs = Inr (map g xs)"
  by (induction xs) simp_all

lemma mapE_Inr: "mapE f xs = Inr ys \<Longrightarrow> list_all2 (\<lambda>x y. f x = Inr y) xs ys"
  by (induction xs arbitrary: ys) (auto simp: bindE_eq_Inr)

lemma Linear_init_ok:
  "0 \<le> i \<Longrightarrow> 0 \<le> k \<Longrightarrow>
   Linear_init \<theta> p i k = Inr \<lparr>in_features = nat i, out_features = nat k,
                                weight = \<theta> (p @ [0]), bias = \<theta> (p @ [1]) 0\<rparr>"
  by (simp add: Linear_init_def)

lemma Linear_init_Inr:
  "Linear_init \<theta> p i k = Inr L \<Longrightarrow>
     0 \<le> i \<and> 0 \<le> k \<and> in_features L = nat i \<and> out_features L = nat k"
  by (auto simp: Linear_init_def split: if_splits)

lemma Linear_init_neg: "i < 0 \<Longrightarrow> Linear_init \<theta> p i k = Inl RuntimeError"
  by (simp add: Linear_init_def)

lemma Dropout_init_03 [simp]: "Dropout_init (3 / 10) = Inr (MDropout (3 / 10))"
  by (simp add: Dropout_init_def)

lemma SelfAttention_init_ok:
  "0 \<le> d \<Longrightarrow> 0 \<le> k \<Longrightarrow> \<exists>A. SelfAttention_init \<theta> p d k = Inr A"
  by (simp add: SelfAttention_init_def Linear_init_ok)

lemma SelfAttention_init_Inr:
  assumes "SelfAttention_init \<theta> p d k = Inr A"
  shows "0 \<le> d" "0 \<le> k"
    "in_features (query A) = nat d" "out_features (query A) = nat k"
    "in_features (key A) = nat d" "out_features (key A) = nat k"
    "in_features (value_lin A) = nat d" "out_features (value_lin A) = nat k"
  using assms
  by (auto simp: SelfAttention_init_def bindE_eq_Inr dest!: Linear_init_Inr)

lemma SelfAttention_init_neg: "d < 0 \<Longrightarrow> SelfAttention_init \<theta> p d k = Inl RuntimeError"
  by (simp add: SelfAttention_init_def Linear_init_neg)

lemma MultiHeadedAttention_init_zero:
  "MultiHeadedAttention_init \<theta> p d 0 dr = Inl ZeroDivisionError"
  by (simp add: MultiHeadedAttention_init_def)

lemma MultiHeadedAttention_init_Inr:
  assumes "MultiHeadedAttention_init \<theta> p d h dr = Inr M"
  shows "h \<noteq> 0" "0 \<le> d" "d_model M = d" "num_heads M = h" "attn_output_size M = d div h"
    "length (attentions M) = nat h"
    "\<And>A. A \<in> set (attentions M) \<Longrightarrow>
        in_features (query A) = nat d \<and> out_features (query A) = nat (d div h)
      \<and> in_features (key A) = nat d \<and> out_features (key A) = nat (d div h)
      \<and> in_features (value_lin A) = nat d \<and> out_features (value_lin A) = nat (d div h)"
    "in_features (output_lin M) = nat d" "out_features (output_lin M) = nat d"
proof -
  from assms have h: "h \<noteq> 0"
    by (auto simp: MultiHeadedAttention_init_def split: if_splits)
  from assms h obtain heads out where
    heads: "mapE (\<lambda>n. SelfAttention_init \<theta> (p @ [0, n]) d (d div h)) [0..<nat h] = Inr heads"
    and out: "Linear_init \<theta> (p @ [1]) d d = Inr out"
    and M: "M = \<lparr>d_model = d, num_heads = h, dropout = dr, attn_output_size = d div h,
                  attentions = heads, output_lin = out\<rparr>"
    by (auto simp: MultiHeadedAttention_init_def Let_def bindE_eq_Inr)
  note l2 = mapE_Inr [OF heads]
  show "h \<noteq> 0" by (rule h)
  show "0 \<le> d" using Linear_init_Inr [OF out] by simp
  show "d_model M = d" "num_heads M = h" "attn_output_size M = d div h"
    by (simp_all add: M)
  show "length (attentions M) = nat h"
    using list_all2_lengthD [OF l2] by (simp add: M)
  show "in_features (output_lin M) = nat d" "out_features (output_lin M) = nat d"
    using Linear_init_Inr [OF out] by (simp_all add: M)
  fix A assume "A \<in> set (attentions M)"
  then have "A \<in> set heads" by (simp add: M)
  then obtain n where "SelfAttention_init \<theta> (p @ [0, n]) d (d div h) = Inr A"
    using l2 by (auto simp: list_all2_conv_all_nth in_set_conv_nth)
  from SelfAttention_init_Inr [OF this]
  show "in_features (query A) = nat d \<and> out_features (query A) = nat (d div h)
      \<and> in_features (key A) = nat d \<and> out_features (key A) = nat (d div h)
      \<and> in_features (value_lin A) = nat d \<and> out_features (value_lin A) = nat (d div h)"
    by simp
qed

lemma MultiHeadedAttention_init_ok:
  assumes "0 \<le> d" "1 \<le> h"
  shows "\<exists>M. MultiHeadedAttention_init \<theta> p d h dr = Inr M"
proof -
  have k: "0 \<le> d div h" using assms by (simp add: pos_imp_zdiv_nonneg_iff)
  have "\<forall>n. \<exists>A. SelfAttention_init \<theta> (p @ [0, n]) d (d div h) = Inr A"
    by (intro allI SelfAttention_init_ok assms(1) k)
  then have "\<exists>g. \<forall>n. SelfAttention_init \<theta> (p @ [0, n]) d (d div h) = Inr (g n)"
    by (rule choice)
  then obtain g where g: "\<And>n. SelfAttention_init \<theta> (p @ [0, n]) d (d div h) = Inr (g n)"
    by blast
  have "mapE (\<lambda>n. SelfAttention_init \<theta> (p @ [0, n]) d (d div h)) [0..<nat h]
          = Inr (map g [0..<nat h])"
    by (rule mapE_ok) (rule g)
  then show ?thesis
    using assms by (simp add: MultiHeadedAttention_init_def Let_def Linear_init_ok)
qed

lemma MultiHeadedAttention_init_neg:
  assumes "d < 0" "1 \<le> h"
  shows "MultiHeadedAttention_init \<theta> p d h dr = Inl RuntimeError"
proof -
  have "[0..<nat h] = 0 # [1..<nat h]"
    using assms(2) by (simp add: upt_rec [of 0])
  then show ?thesis
    using assms by (simp add: MultiHeadedAttention_init_def Let_def SelfAttention_init_neg)
qed

lemma LayerNorm_init_ok: "0 \<le> d \<Longrightarrow> \<exists>N. LayerNorm_init \<theta> p d = Inr N \<and> normalized_shape N = nat d"
  by (simp add: LayerNorm_init_def)

lemma ffn_init_ok: "0 \<le> d \<Longrightarrow> 0 \<le> dff \<Longrightarrow> \<exists>ms. ffn_init \<theta> p d dff (3 / 10) = Inr ms"
  by (simp add: ffn_init_def Linear_init_ok)

lemma EncoderLayer_init_ok:
  assumes "0 \<le> d" "1 \<le> h"
  shows "\<exists>L. EncoderLayer_init \<theta> p d h 2048 (3 / 10) = Inr L"
proof -
  obtain M where "MultiHeadedAttention_init \<theta> (p @ [0]) d h (3 / 10) = Inr M"
    using MultiHeadedAttention_init_ok [OF assms] by blast
  moreover obtain ms where "ffn_init \<theta> (p @ [1]) d 2048 (3 / 10) = Inr ms"
    using ffn_init_ok [OF assms(1), of 2048] by auto
  moreover obtain N1 where "LayerNorm_init \<theta> (p @ [2]) d = Inr N1"
    using LayerNorm_init_ok [OF assms(1)] by blast
  moreover obtain N2 where "LayerNorm_init \<theta> (p @ [3]) d = Inr N2"
    using LayerNorm_init_ok [OF assms(1)] by blast
  ultimately show ?thesis
    by (simp add: EncoderLayer_init_def)
qed

lemma DecoderLayer_init_ok:
  assumes "0 \<le> d" "1 \<le> h"
  shows "\<exists>L. DecoderLayer_init \<theta> p d h 2048 (3 / 10) = Inr L"
proof -
  obtain M where "MultiHeadedAttention_init \<theta> (p @ [0]) d h (3 / 10) = Inr M"
    using MultiHeadedAttention_init_ok [OF assms] by blast
  moreover obtain M' where "MultiHeadedAttention_init \<theta> (p @ [1]) d h (3 / 10) = Inr M'"
    using MultiHeadedAttention_init_ok [OF assms] by blast
  moreover obtain ms where "ffn_init \<theta> (p @ [2]) d 2048 (3 / 10) = Inr ms"
    using ffn_init_ok [OF assms(1), of 2048] by auto
  moreover obtain N1 where "LayerNorm_init \<theta> (p @ [3]) d = Inr N1"
    using LayerNorm_init_ok [OF assms(1)] by blast
  moreover obtain N2 where "LayerNorm_init \<theta> (p @ [4]) d = Inr N2"
    using LayerNorm_init_ok [OF assms(1)] by blast
  moreover obtain N3 where "LayerNorm_init \<theta> (p @ [5]) d = Inr N3"
    using LayerNorm_init_ok [OF assms(1)] by blast
  ultimately show ?thesis
    by (simp add: DecoderLayer_init_def)
qed

lemma mapE_ok_ex:
  assumes "\<And>x. \<exists>y. f x = Inr y"
  shows "\<exists>ys. mapE f xs = Inr ys"
proof -
  from assms have "\<forall>x. \<exists>y. f x = Inr y" by blast
  then have "\<exists>g. \<forall>x. f x = Inr (g x)" by (rule choice)
  then obtain g where "\<And>x. f x = Inr (g x)" by blast
  then have "mapE f xs = Inr (map g xs)" by (intro mapE_ok)
  then show ?thesis by blast
qed

lemma Transformer_init_ok:
  assumes "0 \<le> d" "1 \<le> h"
  shows "\<exists>T. Transformer_init \<theta> d h ne nd = Inr T"
proof -
  obtain es where "mapE (\<lambda>n. EncoderLayer_init \<theta> ([0] @ [n]) d h 2048 (3 / 10)) [0..<nat ne] = Inr es"
    using mapE_ok_ex [of "\<lambda>n. EncoderLayer_init \<theta> ([0] @ [n]) d h 2048 (3 / 10)"]
      EncoderLayer_init_ok [OF assms] by blast
  moreover obtain ds where "mapE (\<lambda>n. DecoderLayer_init \<theta> ([1] @ [n]) d h 2048 (3 / 10)) [0..<nat nd] = Inr ds"
    using mapE_ok_ex [of "\<lambda>n. DecoderLayer_init \<theta> ([1] @ [n]) d h 2048 (3 / 10)"]
      DecoderLayer_init_ok [OF assms] by blast
  ultimately show ?thesis
    by (simp add: Transformer_init_def Encoder_init_def Decoder_init_def)
qed

lemma Transformer_init_Inr:
  assumes "Transformer_init \<theta> d h ne nd = Inr T"
  shows "list_all2 (\<lambda>n L. EncoderLayer_init \<theta> ([0] @ [n]) d h 2048 (3 / 10) = Inr L)
           [0..<nat ne] (enc_layers (encoder T))"
    and "list_all2 (\<lambda>n L. DecoderLayer_init \<theta> ([1] @ [n]) d h 2048 (3 / 10) = Inr L)
           [0..<nat nd] (dec_layers (decoder T))"
  using assms
  by (auto simp: Transformer_init_def Encoder_init_def Decoder_init_def bindE_eq_Inr
      dest!: mapE_Inr)

lemma EncoderLayer_init_Inr:
  "EncoderLayer_init \<theta> p d h dff dr = Inr L \<Longrightarrow>
     MultiHeadedAttention_init \<theta> (p @ [0]) d h dr = Inr (attn L)"
  by (auto simp: EncoderLayer_init_def bindE_eq_Inr)

lemma DecoderLayer_init_Inr:
  "DecoderLayer_init \<theta> p d h dff dr = Inr L \<Longrightarrow>
     MultiHeadedAttention_init \<theta> (p @ [0]) d h dr = Inr (masked_attn L)"
  by (auto simp: DecoderLayer_init_def bindE_eq_Inr)

lemma first_of_list_all2:
  assumes "list_all2 P [0..<n] ys" "0 < n"
  shows "\<exists>y ys'. ys = y # ys' \<and> P 0 y"
  using assms by (cases ys) (auto simp: upt_rec [of 0 n])

lemma first_encoder_layer:
  assumes "Transformer_init \<theta> d h ne nd = Inr T" "1 \<le> ne"
  shows "\<exists>L Ls. enc_layers (encoder T) = L # Ls
           \<and> MultiHeadedAttention_init \<theta> [0, 0, 0] d h (3 / 10) = Inr (attn L)"
proof -
  from first_of_list_all2 [OF Transformer_init_Inr(1) [OF assms(1)]] assms(2)
  obtain L Ls where "enc_layers (encoder T) = L # Ls"
    "EncoderLayer_init \<theta> ([0] @ [0]) d h 2048 (3 / 10) = Inr L"
    by auto
  then show ?thesis
    using EncoderLayer_init_Inr [of \<theta> "[0] @ [0]" d h 2048 "3 / 10" L] by simp
qed

lemma first_decoder_layer:
  assumes "Transformer_init \<theta> d h ne nd = Inr T" "1 \<le> nd"
  shows "\<exists>L Ls. dec_layers (decoder T) = L # Ls
           \<and> MultiHeadedAttention_init \<theta> [1, 0, 0] d h (3 / 10) = Inr (masked_attn L)"
proof -
  from first_of_list_all2 [OF Transformer_init_Inr(2) [OF assms(1)]] assms(2)
  obtain L Ls where "dec_layers (decoder T) = L # Ls"
    "DecoderLayer_init \<theta> ([1] @ [0]) d h 2048 (3 / 10) = Inr L"
    by auto
  then show ?thesis
    using DecoderLayer_init_Inr [of \<theta> "[1] @ [0]" d h 2048 "3 / 10" L] by simp
qed

lemma first_head:
  assumes "MultiHeadedAttention_init \<theta> p d h dr = Inr M" "1 \<le> h"
  shows "\<exists>A As. attentions M = A # As
           \<and> out_features (value_lin A) = nat (d div h) \<and> in_features (output_lin M) = nat d"
proof -
  note f = MultiHeadedAttention_init_Inr [OF assms(1)]
  from f(6) assms(2) obtain A As where A: "attentions M = A # As"
    by (cases "attentions M") auto
  then have "A \<in> set (attentions M)" by simp
  from f(7) [OF this] f(8) A show ?thesis by simp
qed

section \<open>Which exceptions a forward pass raises, and two ways it must fail\<close>

lemma ok_Inr [simp]: "ok_or_RuntimeError (Inr x)"
  by (simp add: ok_or_RuntimeError_def)

lemma ok_Inl [simp]: "ok_or_RuntimeError (Inl e) \<longleftrightarrow> e = RuntimeError"
  by (simp add: ok_or_RuntimeError_def)

lemma ok_bindE:
  "ok_or_RuntimeError m \<Longrightarrow> (\<And>x. ok_or_RuntimeError (f x)) \<Longrightarrow> ok_or_RuntimeError (bindE m f)"
  by (cases m) simp_all

lemma ok_Linear_forward: "ok_or_RuntimeError (Linear_forward L x)"
  by (simp add: Linear_forward_def)

lemma ok_bmm: "ok_or_RuntimeError (bmm a b)"
  by (simp add: bmm_def)

lemma ok_expand: "ok_or_RuntimeError (expand t b n m)"
  by (simp add: expand_def)

lemma ok_masked_fill: "ok_or_RuntimeError (masked_fill t m v)"
  by (simp add: masked_fill_def)

lemma ok_cat_dim1: "ok_or_RuntimeError (cat_dim1 ts)"
  by (simp add: cat_dim1_def split: list.splits)

lemma ok_tensor_add: "ok_or_RuntimeError (tensor_add x y)"
  by (simp add: tensor_add_def)

lemma ok_LayerNorm_forward: "ok_or_RuntimeError (LayerNorm_forward N x)"
  by (simp add: LayerNorm_forward_def)

lemma ok_attention_scores: "ok_or_RuntimeError (attention_scores Q K)"
  unfolding attention_scores_def Let_def by (intro ok_bindE ok_bmm ok_Inr)

lemma ok_apply_mask: "ok_or_RuntimeError (apply_mask S bs n k m)"
  unfolding apply_mask_def by (intro ok_bindE ok_expand ok_masked_fill)

lemma ok_SelfAttention_locals: "ok_or_RuntimeError (SelfAttention_locals A q k v mask')"
  unfolding SelfAttention_locals_def Let_def
  by (intro ok_bindE ok_Linear_forward ok_attention_scores ok_Inr)
     (simp add: ok_apply_mask split: option.splits)

lemma ok_SelfAttention_forward: "ok_or_RuntimeError (SelfAttention_forward A q k v mask')"
  unfolding SelfAttention_forward_def
  by (intro ok_bindE ok_SelfAttention_locals) (simp add: ok_bmm split: prod.splits)

lemma ok_mapE: "(\<And>x. ok_or_RuntimeError (f x)) \<Longrightarrow> ok_or_RuntimeError (mapE f xs)"
  by (induction xs) (simp_all add: ok_bindE)

lemma ok_MultiHeadedAttention_forward:
  "ok_or_RuntimeError (MultiHeadedAttention_forward M q k v mask')"
  unfolding MultiHeadedAttention_forward_def
  by (intro ok_bindE ok_mapE ok_SelfAttention_forward ok_cat_dim1 ok_Linear_forward)

lemma runtime_only_returnM: "ok_or_RuntimeError r \<Longrightarrow> runtime_only (returnM r)"
  by (simp add: runtime_only_def returnM_def)

lemma runtime_only_bindM:
  assumes "runtime_only m" "\<And>x. runtime_only (f x)"
  shows "runtime_only (bindM m f)"
  unfolding runtime_only_def
proof
  fix s
  obtain r s' where ms: "m s = (r, s')" by (cases "m s")
  from assms(1) have "ok_or_RuntimeError (fst (m s))"
    unfolding runtime_only_def by (rule spec)
  then have "ok_or_RuntimeError r"
    by (simp add: ms)
  then show "ok_or_RuntimeError (fst (bindM m f s))"
    using ms assms(2) by (cases r) (auto simp: bindM_def runtime_only_def)
qed

lemma runtime_only_Dropout: "runtime_only (Dropout_forward p x)"
  by (simp add: runtime_only_def Dropout_forward_def)

lemma runtime_only_module: "runtime_only (module_forward m x)"
  by (cases m) (simp_all add: runtime_only_returnM runtime_only_Dropout ok_Linear_forward)

lemma runtime_only_Sequential: "runtime_only (Sequential_forward ms x)"
  by (induction ms arbitrary: x)
     (simp_all add: runtime_only_returnM runtime_only_bindM runtime_only_module)

lemma runtime_only_EncoderLayer: "runtime_only (EncoderLayer_forward L src src_mask)"
  unfolding EncoderLayer_forward_def Let_def
  by (intro runtime_only_bindM runtime_only_returnM runtime_only_Sequential
      ok_MultiHeadedAttention_forward ok_tensor_add ok_LayerNorm_forward)

lemma runtime_only_DecoderLayer: "runtime_only (DecoderLayer_forward L tgt enc tgt_mask enc_mask)"
  unfolding DecoderLayer_forward_def Let_def
  by (intro runtime_only_bindM runtime_only_returnM runtime_only_Sequential
      ok_MultiHeadedAttention_forward ok_tensor_add ok_LayerNorm_forward)

lemma runtime_only_Encoder_loop: "runtime_only (Encoder_loop layers x src_mask)"
  by (induction layers arbitrary: x)
     (simp_all add: runtime_only_returnM runtime_only_bindM runtime_only_EncoderLayer)

lemma runtime_only_Decoder_loop: "runtime_only (Decoder_loop layers x enc tgt_mask enc_mask)"
  by (induction layers arbitrary: x)
     (simp_all add: runtime_only_returnM runtime_only_bindM runtime_only_DecoderLayer)

lemma runtime_only_Transformer: "runtime_only (Transformer_forward src tgt src_mask tgt_mask)"
  unfolding runtime_only_def
proof
  fix s :: "Transformer state"
  let ?dec = "\<lambda>enc_out (s' :: Transformer state).
     bindM (Decoder_forward (decoder (model s')) tgt enc_out src_mask tgt_mask)
       (\<lambda>dec_out. returnM (Inr dec_out)) s'"
  have dec: "runtime_only (?dec enc_out)" for enc_out
    unfolding runtime_only_def
  proof
    fix s' :: "Transformer state"
    have "runtime_only (bindM (Decoder_forward (decoder (model s')) tgt enc_out src_mask tgt_mask)
            (\<lambda>dec_out. returnM (Inr dec_out)) :: (Transformer, val tensor) M)"
      by (intro runtime_only_bindM runtime_only_returnM)
         (simp_all add: Decoder_forward_def runtime_only_Decoder_loop)
    then show "ok_or_RuntimeError (fst (?dec enc_out s'))"
      unfolding runtime_only_def by (rule spec)
  qed
  have "runtime_only (bindM (Encoder_forward (encoder (model s)) src src_mask) ?dec)"
    by (intro runtime_only_bindM dec) (simp add: Encoder_forward_def runtime_only_Encoder_loop)
  then have "ok_or_RuntimeError
      (fst (bindM (Encoder_forward (encoder (model s)) src src_mask) ?dec s))"
    unfolding runtime_only_def by (rule spec)
  then show "ok_or_RuntimeError (fst (Transformer_forward src tgt src_mask tgt_mask s))"
    by (simp add: Transformer_forward_def)
qed

lemma SelfAttention_forward_Inr:
  assumes "SelfAttention_forward A q k v mask' = Inr y"
  shows "dim2 y = out_features (value_lin A)"
proof -
  from assms obtain W V where l: "SelfAttention_locals A q k v mask' = Inr (W, V)"
    and y: "bmm W V = Inr y"
    by (auto simp: SelfAttention_forward_def bindE_eq_Inr)
  from l have "Linear_forward (value_lin A) v = Inr V"
    by (auto simp: SelfAttention_locals_def Let_def bindE_eq_Inr)
  then have "dim2 V = out_features (value_lin A)"
    by (simp add: Linear_forward_Inr)
  moreover from y have "dim2 y = dim2 V"
    by (auto simp: bmm_def split: if_splits)
  ultimately show ?thesis by simp
qed

lemma cat_dim1_Inr: "cat_dim1 (t # ts) = Inr x \<Longrightarrow> dim2 x = dim2 t"
  by (auto simp: cat_dim1_def split: if_splits)

lemma MultiHeadedAttention_forward_width_mismatch:
  assumes ne: "attentions M = A # As"
      and w: "out_features (value_lin A) \<noteq> in_features (output_lin M)"
  shows "MultiHeadedAttention_forward M q k v mask' = Inl RuntimeError"
proof (cases "MultiHeadedAttention_forward M q k v mask'")
  case (Inl e)
  then show ?thesis
    using ok_MultiHeadedAttention_forward [of M q k v mask'] by simp
next
  case (Inr y)
  then obtain heads x where
    heads: "mapE (\<lambda>layer. SelfAttention_forward layer q k v mask') (attentions M) = Inr heads"
    and x: "cat_dim1 heads = Inr x" and y: "Linear_forward (output_lin M) x = Inr y"
    by (auto simp: MultiHeadedAttention_forward_def bindE_eq_Inr)
  from mapE_Inr [OF heads] ne obtain h hs where hs: "heads = h # hs"
    and h: "SelfAttention_forward A q k v mask' = Inr h"
    by (auto simp: list_all2_Cons1)
  have "dim2 x = out_features (value_lin A)"
    using cat_dim1_Inr [OF x [unfolded hs]] SelfAttention_forward_Inr [OF h] by simp
  with Linear_forward_Inr [OF y] w show ?thesis by simp
qed

lemma SelfAttention_forward_mask_length_mismatch:
  assumes "cols m \<noteq> dim1 k" "cols m \<noteq> 1"
  shows "SelfAttention_forward A q k v (Some m) = Inl RuntimeError"
proof (cases "SelfAttention_forward A q k v (Some m)")
  case (Inl e)
  then show ?thesis
    using ok_SelfAttention_forward [of A q k v "Some m"] by simp
next
  case (Inr y)
  then obtain S S' where "apply_mask S (dim0 q) (dim1 q) (dim1 k) m = Inr S'"
    by (auto simp: SelfAttention_forward_def SelfAttention_locals_def Let_def bindE_eq_Inr)
  then obtain e where "expand (unsqueeze1 m) (dim0 q) (dim1 q) (dim1 k) = Inr e"
    by (auto simp: apply_mask_def bindE_eq_Inr)
  then have "expandable (cols m) (dim1 k)"
    by (auto simp: expand_def unsqueeze1_def split: if_splits)
  with assms show ?thesis by (simp add: expandable_def)
qed

lemma MultiHeadedAttention_forward_first_head_fails:
  assumes "attentions M = A # As" "SelfAttention_forward A q k v mask' = Inl e"
  shows "MultiHeadedAttention_forward M q k v mask' = Inl e"
  using assms by (simp add: MultiHeadedAttention_forward_def)

lemma EncoderLayer_forward_attn_fails:
  assumes "MultiHeadedAttention_forward (attn L) x x x src_mask = Inl e"
  shows "EncoderLayer_forward L x src_mask s = (Inl e, s)"
  using assms by (simp add: EncoderLayer_forward_def Let_def bindM_def returnM_def)

lemma DecoderLayer_forward_masked_attn_fails:
  assumes "MultiHeadedAttention_forward (masked_attn L) x x x tgt_mask = Inl e"
  shows "DecoderLayer_forward L x enc tgt_mask enc_mask s = (Inl e, s)"
  using assms by (simp add: DecoderLayer_forward_def Let_def bindM_def returnM_def)

lemma Transformer_forward_encoder_fails:
  assumes "fst (Encoder_forward (encoder (model s)) src src_mask s) = Inl e"
  shows "fst (Transformer_forward src tgt src_mask tgt_mask s) = Inl e"
  using assms
  by (cases "Encoder_forward (encoder (model s)) src src_mask s")
     (simp add: Transformer_forward_def bindM_def)

section \<open>The state is threaded, the parameters are only read\<close>

lemma keeps_model_returnM: "keeps_model (returnM r)"
  by (simp add: keeps_model_def returnM_def)

lemma keeps_model_bindM:
  assumes "keeps_model m" "\<And>x. keeps_model (f x)"
  shows "keeps_model (bindM m f)"
  unfolding keeps_model_def
proof
  fix s
  obtain r s' where ms: "m s = (r, s')" by (cases "m s")
  from assms(1) have "model (snd (m s)) = model s \<and> training (snd (m s)) = training s"
    unfolding keeps_model_def by (rule spec)
  then have s': "model s' = model s" "training s' = training s"
    by (simp_all add: ms)
  show "model (snd (bindM m f s)) = model s \<and> training (snd (bindM m f s)) = training s"
  proof (cases r)
    case (Inl e)
    then show ?thesis using ms s' by (simp add: bindM_def)
  next
    case (Inr x)
    then have "bindM m f s = f x s'" using ms by (simp add: bindM_def)
    then show ?thesis using assms(2) [of x] s' by (simp add: keeps_model_def)
  qed
qed

lemma keeps_model_Dropout: "keeps_model (Dropout_forward p x)"
  by (simp add: keeps_model_def Dropout_forward_def)

lemma keeps_model_module: "keeps_model (module_forward m x)"
  by (cases m) (simp_all add: keeps_model_returnM keeps_model_Dropout)

lemma keeps_model_Sequential: "keeps_model (Sequential_forward ms x)"
  by (induction ms arbitrary: x)
     (simp_all add: keeps_model_returnM keeps_model_bindM keeps_model_module)

lemma keeps_model_EncoderLayer: "keeps_model (EncoderLayer_forward L src src_mask)"
  unfolding EncoderLayer_forward_def Let_def
  by (intro keeps_model_bindM keeps_model_returnM keeps_model_Sequential)

lemma keeps_model_DecoderLayer: "keeps_model (DecoderLayer_forward L tgt enc tgt_mask enc_mask)"
  unfolding DecoderLayer_forward_def Let_def
  by (intro keeps_model_bindM keeps_model_returnM keeps_model_Sequential)

lemma keeps_model_Encoder_loop: "keeps_model (Encoder_loop layers x src_mask)"
  by (induction layers arbitrary: x)
     (simp_all add: keeps_model_returnM keeps_model_bindM keeps_model_EncoderLayer)

lemma keeps_model_Decoder_loop: "keeps_model (Decoder_loop layers x enc tgt_mask enc_mask)"
  by (induction layers arbitrary: x)
     (simp_all add: keeps_model_returnM keeps_model_bindM keeps_model_DecoderLayer)

lemma keeps_model_Encoder: "keeps_model (Encoder_forward E src src_mask)"
  by (simp add: Encoder_forward_def keeps_model_Encoder_loop)

lemma keeps_model_Decoder: "keeps_model (Decoder_forward D tgt enc tgt_mask enc_mask)"
  by (simp add: Decoder_forward_def keeps_model_Decoder_loop)

lemma keeps_modelD: "keeps_model F \<Longrightarrow> model (snd (F s)) = model s"
  by (simp add: keeps_model_def)

lemma eval_pure_returnM: "eval_pure (returnM r)"
  by (auto simp: eval_pure_def returnM_def)

lemma eval_pure_bindM:
  assumes "eval_pure m" "\<And>x. eval_pure (f x)"
  shows "eval_pure (bindM m f)"
proof -
  from assms(1) obtain r where r: "\<And>s. training s \<or> m s = (r, s)"
    by (auto simp: eval_pure_def)
  show ?thesis
  proof (cases r)
    case (Inl e)
    then have "training s \<or> bindM m f s = (Inl e, s)" for s
      using r [of s] by (auto simp: bindM_def)
    then show ?thesis unfolding eval_pure_def by blast
  next
    case (Inr x)
    from assms(2) [of x] obtain r' where r': "\<And>s. training s \<or> f x s = (r', s)"
      by (auto simp: eval_pure_def)
    have "training s \<or> bindM m f s = (r', s)" for s
      using r [of s] r' [of s] Inr by (auto simp: bindM_def)
    then show ?thesis unfolding eval_pure_def by blast
  qed
qed

lemma eval_pure_Dropout: "eval_pure (Dropout_forward p x)"
  unfolding eval_pure_def by (rule exI [of _ "Inr x"]) (simp add: Dropout_forward_def)

lemma eval_pure_module: "eval_pure (module_forward m x)"
  by (cases m) (simp_all add: eval_pure_returnM eval_pure_Dropout)

lemma eval_pure_Sequential: "eval_pure (Sequential_forward ms x)"
  by (induction ms arbitrary: x)
     (simp_all add: eval_pure_returnM eval_pure_bindM eval_pure_module)

lemma eval_pure_EncoderLayer: "eval_pure (EncoderLayer_forward L src src_mask)"
  unfolding EncoderLayer_forward_def Let_def
  by (intro eval_pure_bindM eval_pure_returnM eval_pure_Sequential)

lemma eval_pure_DecoderLayer: "eval_pure (DecoderLayer_forward L tgt enc tgt_mask enc_mask)"
  unfolding DecoderLayer_forward_def Let_def
  by (intro eval_pure_bindM eval_pure_returnM eval_pure_Sequential)

lemma eval_pure_Encoder_loop: "eval_pure (Encoder_loop layers x src_mask)"
  by (induction layers arbitrary: x)
     (simp_all add: eval_pure_returnM eval_pure_bindM eval_pure_EncoderLayer)

lemma eval_pure_Decoder_loop: "eval_pure (Decoder_loop layers x enc tgt_mask enc_mask)"
  by (induction layers arbitrary: x)
     (simp_all add: eval_pure_returnM eval_pure_bindM eval_pure_DecoderLayer)

lemma eval_pure_forward:
  "eval_pure (bindM (Encoder_forward (encoder T) src src_mask) (\<lambda>enc_out.
          bindM (Decoder_forward (decoder T) tgt enc_out src_mask tgt_mask)
                   (\<lambda>dec_out. returnM (Inr dec_out))))"
  by (intro eval_pure_bindM eval_pure_returnM)
     (simp_all add: Encoder_forward_def Decoder_forward_def eval_pure_Encoder_loop eval_pure_Decoder_loop)

section \<open>When a forward pass returns\<close>

lemma SelfAttention_forward_ok:
  assumes "dim2 q = in_features (query A)" "dim2 k = in_features (key A)"
    "dim2 v = in_features (value_lin A)" "out_features (query A) = out_features (key A)"
    "dim0 k = dim0 q" "dim0 v = dim0 q" "dim1 v = dim1 k"
    "mask_fits mask' (dim0 q) (dim1 q) (dim1 k)"
  shows "\<exists>y. SelfAttention_forward A q k v mask' = Inr y
            \<and> shape y = (dim0 q, dim1 q, out_features (value_lin A))"
proof (cases mask')
  case None
  then show ?thesis
    using assms
    by (simp add: SelfAttention_forward_def SelfAttention_locals_def Let_def Linear_forward_def
        attention_scores_def bmm_def transpose12_def div_scalar_def to_score_def
        softmax_dim1_def shape_def)
next
  case (Some m)
  then have m: "expandable (rows m) (dim0 q)" "expandable (cols m) (dim1 k)"
    "dim1 k = dim1 q \<or> dim1 q = 1"
    using assms(8) by (auto simp: mask_fits_def)
  have bd: "broadcast_dim (dim1 k) (dim1 k) = dim1 k" "broadcast_dim (dim0 q) (dim0 q) = dim0 q"
    "broadcast_dim (dim1 q) (dim1 q) = dim1 q"
    "broadcast_dim (dim1 k) (dim1 q) = dim1 k"
    using m(3) by (auto simp: broadcast_dim_def)
  show ?thesis
    using assms(1-7) m Some
    by (simp add: SelfAttention_forward_def SelfAttention_locals_def Let_def Linear_forward_def
        attention_scores_def bmm_def transpose12_def div_scalar_def to_score_def
        apply_mask_def expand_def unsqueeze0_def unsqueeze1_def subsequent_mask_cell
        masked_fill_def eq0_def broadcastable_def bd softmax_dim1_def shape_def
        expandable_def)
       blast
qed


lemma cat_dim1_single: "cat_dim1 [t] = Inr (Tensor (dim0 t) (dim1 t) (dim2 t) (\<lambda>b i c. cat_entry [t] b i c NaN))"
  by (simp add: cat_dim1_def)

lemma Linear_forward_ok:
  "dim2 x = in_features L \<Longrightarrow>
   \<exists>y. Linear_forward L x = Inr y \<and> shape y = (dim0 x, dim1 x, out_features L)"
  by (simp add: Linear_forward_def shape_def)

lemma shape_eq: "shape t = (b, n, d) \<longleftrightarrow> dim0 t = b \<and> dim1 t = n \<and> dim2 t = d"
  by (simp add: shape_def)

lemma MultiHeadedAttention_forward_ok:
  assumes M: "one_head_fits M d"
      and sh: "shape q = (b, n, d)" "shape k = (b, n', d)" "shape v = (b, n', d)"
      and mk: "mask_fits mask' b n n'"
  shows "\<exists>y. MultiHeadedAttention_forward M q k v mask' = Inr y \<and> shape y = (b, n, d)"
proof -
  from M obtain A where A: "attentions M = [A]" and hf: "head_fits A d"
    and out: "in_features (output_lin M) = d" "out_features (output_lin M) = d"
    by (auto simp: one_head_fits_def split: list.splits)
  have "\<exists>y. SelfAttention_forward A q k v mask' = Inr y
            \<and> shape y = (dim0 q, dim1 q, out_features (value_lin A))"
    using hf sh mk by (intro SelfAttention_forward_ok) (simp_all add: head_fits_def shape_eq)
  then obtain h where h: "SelfAttention_forward A q k v mask' = Inr h" "shape h = (b, n, d)"
    using hf sh by (auto simp: head_fits_def shape_eq)
  let ?x = "Tensor (dim0 h) (dim1 h) (dim2 h) (\<lambda>b i c. cat_entry [h] b i c NaN)"
  have "dim2 ?x = in_features (output_lin M)"
    using h(2) out by (simp add: shape_eq)
  from Linear_forward_ok [OF this] obtain y where
    "Linear_forward (output_lin M) ?x = Inr y" "shape y = (b, n, d)"
    using h(2) out by (auto simp: shape_eq)
  then show ?thesis
    by (simp add: MultiHeadedAttention_forward_def A h(1) cat_dim1_single)
qed

lemma tensor_add_ok:
  "shape x = sh \<Longrightarrow> shape y = sh \<Longrightarrow> \<exists>z. tensor_add x y = Inr z \<and> shape z = sh"
  by (auto simp: tensor_add_def shape_def broadcastable_def broadcast_dim_def)

lemma LayerNorm_forward_ok:
  "shape x = (b, n, d) \<Longrightarrow> normalized_shape N = d \<Longrightarrow>
   \<exists>y. LayerNorm_forward N x = Inr y \<and> shape y = (b, n, d)"
  by (auto simp: LayerNorm_forward_def shape_def)

lemma Dropout_forward_ok:
  "\<exists>y s'. Dropout_forward p x s = (Inr y, s') \<and> shape y = shape x"
  by (simp add: Dropout_forward_def shape_def)

lemma ffn_forward_ok:
  assumes "ffn_fits ms d" "shape x = (b, n, d)"
  shows "\<exists>y s'. Sequential_forward ms x s = (Inr y, s') \<and> shape y = (b, n, d)"
proof -
  from assms(1) obtain l0 p l3 p' where ms: "ms = [MLinear l0, MReLU, MDropout p, MLinear l3, MDropout p']"
    and l: "in_features l0 = d" "out_features l0 = in_features l3" "out_features l3 = d"
    by (induction ms d rule: ffn_fits.induct) simp_all
  obtain h where h: "Linear_forward l0 x = Inr h" "shape h = (b, n, out_features l0)"
    using Linear_forward_ok [of x l0] l(1) assms(2) by (auto simp: shape_eq)
  let ?r = "ReLU_forward h"
  have r: "shape ?r = (b, n, out_features l0)"
    using h(2) by (simp add: ReLU_forward_def shape_def)
  obtain u s1 where u: "Dropout_forward p ?r s = (Inr u, s1)" "shape u = (b, n, out_features l0)"
    using Dropout_forward_ok [of p ?r s] r by auto
  obtain w where w: "Linear_forward l3 u = Inr w" "shape w = (b, n, d)"
    using Linear_forward_ok [of u l3] l(2,3) u(2) by (auto simp: shape_eq)
  obtain y s2 where y: "Dropout_forward p' w s1 = (Inr y, s2)" "shape y = (b, n, d)"
    using Dropout_forward_ok [of p' w s1] w(2) by auto
  have "Sequential_forward ms x s = (Inr y, s2)"
    by (simp add: ms bindM_def returnM_def h(1) u(1) w(1) y(1))
  with y(2) show ?thesis by blast
qed


lemma EncoderLayer_forward_ok:
  assumes L: "EncoderLayer_fits L d" and x: "shape x = (b, n, d)" and mk: "mask_fits mask' b n n"
  shows "\<exists>y s'. EncoderLayer_forward L x mask' s = (Inr y, s') \<and> shape y = (b, n, d)"
proof -
  from L have f: "one_head_fits (attn L) d" "ffn_fits (ffn L) d"
    "normalized_shape (attn_norm L) = d" "normalized_shape (ffn_norm L) = d"
    by (simp_all add: EncoderLayer_fits_def)
  obtain a where a: "MultiHeadedAttention_forward (attn L) x x x mask' = Inr a" "shape a = (b, n, d)"
    using MultiHeadedAttention_forward_ok [OF f(1) x x x mk] by blast
  obtain x1 where x1: "tensor_add x a = Inr x1" "shape x1 = (b, n, d)"
    using tensor_add_ok [OF x a(2)] by blast
  obtain x2 where x2: "LayerNorm_forward (attn_norm L) x1 = Inr x2" "shape x2 = (b, n, d)"
    using LayerNorm_forward_ok [OF x1(2) f(3)] by blast
  obtain g s1 where g: "Sequential_forward (ffn L) x2 s = (Inr g, s1)" "shape g = (b, n, d)"
    using ffn_forward_ok [OF f(2) x2(2), of s] by blast
  obtain x3 where x3: "tensor_add x2 g = Inr x3" "shape x3 = (b, n, d)"
    using tensor_add_ok [OF x2(2) g(2)] by blast
  obtain x4 where x4: "LayerNorm_forward (ffn_norm L) x3 = Inr x4" "shape x4 = (b, n, d)"
    using LayerNorm_forward_ok [OF x3(2) f(4)] by blast
  have "EncoderLayer_forward L x mask' s = (Inr x4, s1)"
    by (simp add: EncoderLayer_forward_def Let_def bindM_def returnM_def a(1) x1(1) x2(1) g(1)
        x3(1) x4(1))
  with x4(2) show ?thesis by blast
qed

lemma DecoderLayer_forward_ok:
  assumes L: "DecoderLayer_fits L d" and x: "shape x = (b, n, d)" and e: "shape enc = (b, n', d)"
    and mk: "mask_fits tgt_mask b n n" "mask_fits enc_mask b n n'"
  shows "\<exists>y s'. DecoderLayer_forward L x enc tgt_mask enc_mask s = (Inr y, s')
            \<and> shape y = (b, n, d)"
proof -
  from L have f: "one_head_fits (masked_attn L) d" "one_head_fits (dec_attn L) d"
    "ffn_fits (dec_ffn L) d" "normalized_shape (masked_attn_norm L) = d"
    "normalized_shape (dec_attn_norm L) = d" "normalized_shape (dec_ffn_norm L) = d"
    by (simp_all add: DecoderLayer_fits_def)
  obtain a where a: "MultiHeadedAttention_forward (masked_attn L) x x x tgt_mask = Inr a"
    "shape a = (b, n, d)"
    using MultiHeadedAttention_forward_ok [OF f(1) x x x mk(1)] by blast
  obtain x1 where x1: "tensor_add x a = Inr x1" "shape x1 = (b, n, d)"
    using tensor_add_ok [OF x a(2)] by blast
  obtain x2 where x2: "LayerNorm_forward (masked_attn_norm L) x1 = Inr x2" "shape x2 = (b, n, d)"
    using LayerNorm_forward_ok [OF x1(2) f(4)] by blast
  obtain c where c: "MultiHeadedAttention_forward (dec_attn L) x2 enc enc enc_mask = Inr c"
    "shape c = (b, n, d)"
    using MultiHeadedAttention_forward_ok [OF f(2) x2(2) e e mk(2)] by blast
  obtain x3 where x3: "tensor_add x2 c = Inr x3" "shape x3 = (b, n, d)"
    using tensor_add_ok [OF x2(2) c(2)] by blast
  obtain x4 where x4: "LayerNorm_forward (dec_attn_norm L) x3 = Inr x4" "shape x4 = (b, n, d)"
    using LayerNorm_forward_ok [OF x3(2) f(5)] by blast
  obtain g s1 where g: "Sequential_forward (dec_ffn L) x4 s = (Inr g, s1)" "shape g = (b, n, d)"
    using ffn_forward_ok [OF f(3) x4(2), of s] by blast
  obtain x5 where x5: "tensor_add x4 g = Inr x5" "shape x5 = (b, n, d)"
    using tensor_add_ok [OF x4(2) g(2)] by blast
  obtain x6 where x6: "LayerNorm_forward (dec_ffn_norm L) x5 = Inr x6" "shape x6 = (b, n, d)"
    using LayerNorm_forward_ok [OF x5(2) f(6)] by blast
  have "DecoderLayer_forward L x enc tgt_mask enc_mask s = (Inr x6, s1)"
    by (simp add: DecoderLayer_forward_def Let_def bindM_def returnM_def a(1) x1(1) x2(1) c(1)
        x3(1) x4(1) g(1) x5(1) x6(1))
  with x6(2) show ?thesis by blast
qed

lemma Encoder_loop_ok:
  assumes "list_all (\<lambda>L. EncoderLayer_fits L d) layers" "shape x = (b, n, d)" "mask_fits mask' b n n"
  shows "\<exists>y s'. Encoder_loop layers x mask' s = (Inr y, s') \<and> shape y = (b, n, d)"
  using assms
proof (induction layers arbitrary: x s)
  case Nil
  then show ?case by (simp add: returnM_def)
next
  case (Cons L layers)
  from Cons.prems obtain y s1 where
    y: "EncoderLayer_forward L x mask' s = (Inr y, s1)" "shape y = (b, n, d)"
    using EncoderLayer_forward_ok [of L d x b n mask' s] by auto
  from Cons.IH [OF _ y(2) Cons.prems(3), of s1] Cons.prems(1) obtain z s2 where
    "Encoder_loop layers y mask' s1 = (Inr z, s2)" "shape z = (b, n, d)"
    by auto
  then show ?case
    by (simp add: bindM_def y(1))
qed

lemma Decoder_loop_ok:
  assumes "list_all (\<lambda>L. DecoderLayer_fits L d) layers" "shape x = (b, n, d)"
    "shape enc = (b, n', d)" "mask_fits tgt_mask b n n" "mask_fits enc_mask b n n'"
  shows "\<exists>y s'. Decoder_loop layers x enc tgt_mask enc_mask s = (Inr y, s') \<and> shape y = (b, n, d)"
  using assms
proof (induction layers arbitrary: x s)
  case Nil
  then show ?case by (simp add: returnM_def)
next
  case (Cons L layers)
  from Cons.prems obtain y s1 where
    y: "DecoderLayer_forward L x enc tgt_mask enc_mask s = (Inr y, s1)" "shape y = (b, n, d)"
    using DecoderLayer_forward_ok [of L d x b n enc n' tgt_mask enc_mask s] by auto
  from Cons.IH [OF _ y(2) Cons.prems(3,4,5), of s1] Cons.prems(1) obtain z s2 where
    "Decoder_loop layers y enc tgt_mask enc_mask s1 = (Inr z, s2)" "shape z = (b, n, d)"
    by auto
  then show ?case
    by (simp add: bindM_def y(1))
qed

lemma one_head_fits_init:
  assumes "MultiHeadedAttention_init \<theta> p d 1 dr = Inr M"
  shows "one_head_fits M (nat d)"
proof -
  note f = MultiHeadedAttention_init_Inr [OF assms]
  from f(6) obtain A where A: "attentions M = [A]"
    by (cases "attentions M") auto
  then have "A \<in> set (attentions M)" by simp
  from f(7) [OF this] f(8,9) A show ?thesis
    by (simp add: one_head_fits_def head_fits_def)
qed

lemma ffn_fits_init:
  assumes "ffn_init \<theta> p d dff dr = Inr ms"
  shows "ffn_fits ms (nat d)"
proof -
  from assms obtain l0 l3 where
    "Linear_init \<theta> (p @ [0]) d dff = Inr l0" "Linear_init \<theta> (p @ [3]) dff d = Inr l3"
    "ms = [MLinear l0, MReLU, MDropout dr, MLinear l3, MDropout dr]"
    by (auto simp: ffn_init_def bindE_eq_Inr Dropout_init_def split: if_splits)
  then show ?thesis
    using Linear_init_Inr [of \<theta> "p @ [0]" d dff l0] Linear_init_Inr [of \<theta> "p @ [3]" dff d l3]
    by simp
qed

lemma LayerNorm_init_Inr: "LayerNorm_init \<theta> p d = Inr N \<Longrightarrow> normalized_shape N = nat d"
  by (auto simp: LayerNorm_init_def split: if_splits)

lemma EncoderLayer_fits_init:
  assumes "EncoderLayer_init \<theta> p d 1 dff dr = Inr L"
  shows "EncoderLayer_fits L (nat d)"
proof -
  from assms obtain M ms N1 N2 where
    "MultiHeadedAttention_init \<theta> (p @ [0]) d 1 dr = Inr M" "ffn_init \<theta> (p @ [1]) d dff dr = Inr ms"
    "LayerNorm_init \<theta> (p @ [2]) d = Inr N1" "LayerNorm_init \<theta> (p @ [3]) d = Inr N2"
    "L = \<lparr>attn = M, ffn = ms, attn_norm = N1, ffn_norm = N2\<rparr>"
    by (auto simp: EncoderLayer_init_def bindE_eq_Inr)
  then show ?thesis
    by (simp add: EncoderLayer_fits_def one_head_fits_init ffn_fits_init LayerNorm_init_Inr)
qed

lemma DecoderLayer_fits_init:
  assumes "DecoderLayer_init \<theta> p d 1 dff dr = Inr L"
  shows "DecoderLayer_fits L (nat d)"
proof -
  from assms obtain M M' ms N1 N2 N3 where
    "MultiHeadedAttention_init \<theta> (p @ [0]) d 1 dr = Inr M"
    "MultiHeadedAttention_init \<theta> (p @ [1]) d 1 dr = Inr M'"
    "ffn_init \<theta> (p @ [2]) d dff dr = Inr ms"
    "LayerNorm_init \<theta> (p @ [3]) d = Inr N1" "LayerNorm_init \<theta> (p @ [4]) d = Inr N2"
    "LayerNorm_init \<theta> (p @ [5]) d = Inr N3"
    "L = \<lparr>masked_attn = M, dec_attn = M', dec_ffn = ms, masked_attn_norm = N1,
          dec_attn_norm = N2, dec_ffn_norm = N3\<rparr>"
    by (auto simp: DecoderLayer_init_def bindE_eq_Inr)
  then show ?thesis
    by (simp add: DecoderLayer_fits_def one_head_fits_init ffn_fits_init LayerNorm_init_Inr)
qed

lemma list_all2_list_all: "list_all2 (\<lambda>x y. Q x y) xs ys \<Longrightarrow> (\<And>x y. Q x y \<Longrightarrow> P y) \<Longrightarrow> list_all P ys"
  by (induction xs ys rule: list_all2_induct) simp_all

lemma Transformer_fits_init:
  assumes "Transformer_init \<theta> d 1 ne nd = Inr T"
  shows "list_all (\<lambda>L. EncoderLayer_fits L (nat d)) (enc_layers (encoder T))"
    and "list_all (\<lambda>L. DecoderLayer_fits L (nat d)) (dec_layers (decoder T))"
proof -
  show "list_all (\<lambda>L. EncoderLayer_fits L (nat d)) (enc_layers (encoder T))"
    by (rule list_all2_list_all [OF Transformer_init_Inr(1) [OF assms]])
       (rule EncoderLayer_fits_init)
  show "list_all (\<lambda>L. DecoderLayer_fits L (nat d)) (dec_layers (decoder T))"
    by (rule list_all2_list_all [OF Transformer_init_Inr(2) [OF assms]])
       (rule DecoderLayer_fits_init)
qed

lemma Transformer_forward_ok:
  assumes init: "Transformer_init \<theta> d 1 ne nd = Inr T" and s: "model s = T"
    and sh: "shape src = (b, n', nat d)" "shape tgt = (b, n, nat d)"
    and mk: "mask_fits src_mask b n' n'" "mask_fits src_mask b n n" "mask_fits tgt_mask b n n'"
  shows "\<exists>y. fst (Transformer_forward src tgt src_mask tgt_mask s) = Inr y
            \<and> shape y = (b, n, nat d)"
proof -
  note fits = Transformer_fits_init [OF init]
  obtain enc_out s1 where
    e: "Encoder_forward (encoder (model s)) src src_mask s = (Inr enc_out, s1)"
    "shape enc_out = (b, n', nat d)"
    using Encoder_loop_ok [OF fits(1) sh(1) mk(1), of s] by (auto simp: Encoder_forward_def s)
  have "model s1 = model s"
    using keeps_modelD [OF keeps_model_Encoder, of "encoder (model s)" src src_mask s] e(1)
    by simp
  then have s1: "model s1 = T" by (simp add: s)
  obtain y s2 where
    y: "Decoder_forward (decoder (model s1)) tgt enc_out src_mask tgt_mask s1 = (Inr y, s2)"
    "shape y = (b, n, nat d)"
    using Decoder_loop_ok [OF fits(2) sh(2) e(2) mk(2,3), of s1]
    by (auto simp: Decoder_forward_def s1)
  have "Transformer_forward src tgt src_mask tgt_mask s = (Inr y, s2)"
    by (simp add: Transformer_forward_def bindM_def returnM_def e(1) y(1))
  with y(2) show ?thesis by simp
qed

lemma Transformer_forward_decoder_fails_at:
  assumes "model s = T" "dec_layers (decoder T) = L # Ls"
    and "MultiHeadedAttention_forward (masked_attn L) tgt tgt tgt src_mask = Inl RuntimeError"
  shows "fst (Transformer_forward src tgt src_mask tgt_mask s) = Inl RuntimeError"
proof -
  let ?enc = "Encoder_forward (encoder (model s)) src src_mask :: (Transformer, val tensor) M"
  obtain r s1 where e: "?enc s = (r, s1)" by (cases "?enc s")
  show ?thesis
  proof (cases r)
    case (Inl err)
    have "runtime_only ?enc"
      by (simp add: Encoder_forward_def runtime_only_Encoder_loop)
    then have "ok_or_RuntimeError (fst (?enc s))"
      unfolding runtime_only_def by (rule spec)
    then have "err = RuntimeError" using e Inl by simp
    then show ?thesis
      using e Inl by (simp add: Transformer_forward_def bindM_def)
  next
    case (Inr enc_out)
    have "model s1 = model s"
      using keeps_modelD [OF keeps_model_Encoder, of "encoder (model s)" src src_mask s] e
      by simp
    then have L: "dec_layers (decoder (model s1)) = L # Ls"
      using assms(1,2) by simp
    have "DecoderLayer_forward L tgt enc_out src_mask tgt_mask s1 = (Inl RuntimeError, s1)"
      by (rule DecoderLayer_forward_masked_attn_fails) (rule assms(3))
    then show ?thesis
      using e Inr by (simp add: Transformer_forward_def bindM_def Decoder_forward_def L)
  qed
qed

lemma mask_fits_ones [simp]:
  "mask_fits (Some (ones b n')) b n n' \<longleftrightarrow> n' = n \<or> n = 1"
  by (simp add: mask_fits_def ones_def expandable_def)

lemma shape_zeros [simp]: "shape (zeros b n d) = (b, n, d)"
  by (simp add: zeros_def shape_def)

lemma finite_Linear_init:
  assumes "Linear_init \<theta> p i k = Inr L" "\<And>p i j. finite_val (\<theta> p i j)"
  shows "finite_Linear L"
proof -
  from assms(1) have "weight L = \<theta> (p @ [0])" "bias L = \<theta> (p @ [1]) 0"
    by (auto simp: Linear_init_def split: if_splits)
  then show ?thesis
    by (simp add: finite_Linear_iff assms(2))
qed

lemma finite_SelfAttention_init:
  assumes "SelfAttention_init \<theta> p d k = Inr A" "\<And>p i j. finite_val (\<theta> p i j)"
  shows "finite_Linear (query A)" "finite_Linear (key A)"
proof -
  from assms(1) obtain Q K where Q: "Linear_init \<theta> (p @ [0]) d k = Inr Q"
    and K: "Linear_init \<theta> (p @ [1]) d k = Inr K" and A: "query A = Q" "key A = K"
    by (auto simp: SelfAttention_init_def bindE_eq_Inr)
  show "finite_Linear (query A)"
    unfolding A by (rule finite_Linear_init [OF Q]) (rule assms(2))
  show "finite_Linear (key A)"
    unfolding A by (rule finite_Linear_init [OF K]) (rule assms(2))
qed

lemma finite_heads_init:
  assumes "MultiHeadedAttention_init \<theta> p d h dr = Inr M" "\<And>p i j. finite_val (\<theta> p i j)"
    and "A \<in> set (attentions M)"
  shows "finite_Linear (query A)" "finite_Linear (key A)"
proof -
  from assms(1) obtain heads where
    heads: "mapE (\<lambda>n. SelfAttention_init \<theta> (p @ [0, n]) d (d div h)) [0..<nat h] = Inr heads"
    and M: "attentions M = heads"
    by (auto simp: MultiHeadedAttention_init_def Let_def bindE_eq_Inr split: if_splits)
  from mapE_Inr [OF heads] assms(3) M obtain n where
    A: "SelfAttention_init \<theta> (p @ [0, n]) d (d div h) = Inr A"
    by (auto simp: list_all2_conv_all_nth in_set_conv_nth)
  show "finite_Linear (query A)"
    by (rule finite_SelfAttention_init(1) [OF A]) (rule assms(2))
  show "finite_Linear (key A)"
    by (rule finite_SelfAttention_init(2) [OF A]) (rule assms(2))
qed

lemma bindM_eq_Inr:
  "bindM m f s = (Inr y, s') \<Longrightarrow> \<exists>x s1. m s = (Inr x, s1) \<and> f x s1 = (Inr y, s')"
  by (cases "m s") (auto simp: bindM_def split: sum.splits)

lemma EncoderLayer_forward_heads_ran:
  assumes "EncoderLayer_forward L x mask' s = (Inr y, s')" "A \<in> set (attentions (attn L))"
  shows "\<exists>W. SelfAttention_weights A x x x mask' = Inr W"
proof -
  from bindM_eq_Inr [OF assms(1) [unfolded EncoderLayer_forward_def Let_def]]
  obtain a where "MultiHeadedAttention_forward (attn L) x x x mask' = Inr a"
    by (auto simp: returnM_def)
  then obtain heads where
    "mapE (\<lambda>layer. SelfAttention_forward layer x x x mask') (attentions (attn L)) = Inr heads"
    by (auto simp: MultiHeadedAttention_forward_def bindE_eq_Inr)
  from mapE_Inr [OF this] assms(2) obtain h where "SelfAttention_forward A x x x mask' = Inr h"
    by (auto simp: list_all2_conv_all_nth in_set_conv_nth)
  then obtain W V where "SelfAttention_locals A x x x mask' = Inr (W, V)"
    by (auto simp: SelfAttention_forward_def bindE_eq_Inr)
  then show ?thesis
    by (simp add: SelfAttention_weights_def)
qed

lemma finite_zeros: "finite_tensor (zeros b n d)"
  by (simp add: finite_tensor_iff zeros_def)

section \<open>The claims\<close>

subsection \<open>Attention weights of one head\<close>

text \<open>
  Claim C6 says that a key position the mask marks invalid gets the attention weight 0 from
  every query position.  The code fills the whole column of that key with negative infinity
  and then takes the softmax along the query axis (\<^verbatim>\<open>dim=1\<close>), that is, over exactly that
  column: every weight in it is NaN, not 0.  Shown for a call whose key and query lengths
  agree and whose mask has the shape (batch, length).
\<close>

theorem padded_key_weights_are_NaN:
  assumes "SelfAttention_weights A q k v (Some m) = Inr W"
      and "dim1 k = dim1 q" "rows m = dim0 q" "cols m = dim1 q"
      and "b < dim0 q" "j < dim1 q"
      and "cell m b j = 0"
  shows "\<forall>i<dim1 q. entry W b i j = NaN"
  using masked_key_weight_NaN [OF assms(1-5) _ assms(6,7)] by blast

theorem padded_key_weights_are_NaN_witness:
  "\<exists>W. SelfAttention_weights example_head example_x example_x example_x (Some mask_10) = Inr W
     \<and> cell mask_10 0 1 = 0
     \<and> entry W 0 0 1 = NaN \<and> entry W 0 1 1 = NaN \<and> entry W 0 0 1 \<noteq> Fin 0"
proof -
  obtain W where W: "SelfAttention_weights example_head example_x example_x example_x (Some mask_10) = Inr W"
    using SelfAttention_weights_succeeds [of example_x example_head example_x example_x mask_10]
    by (auto simp: example_head_sel)
  have z: "cell mask_10 0 1 = 0" by (simp add: mask_10_def)
  have "\<forall>i<dim1 example_x. entry W 0 i 1 = NaN"
    by (rule padded_key_weights_are_NaN [OF W]) (simp_all add: example_head_sel mask_10_def)
  then have "entry W 0 0 1 = NaN" "entry W 0 1 1 = NaN"
    by (simp_all add: example_head_sel)
  with W z show ?thesis by simp
qed

text \<open>
  Claim C1 says that the softmax is taken over the key axis, so that with an all-ones mask
  the weights of every query position sum to 1 across the keys.  The code takes it with
  \<^verbatim>\<open>dim=1\<close>, over the query axis, after the causal fill that runs whenever a mask is
  given: the weights of the first query position are 0 at every later key and less than 1
  at key 0, so their sum across the keys is below 1 in every batch element, as soon as
  there are two positions.
\<close>

theorem first_query_weights_sum_below_one:
  assumes "SelfAttention_weights A q k v (Some m) = Inr W"
      and "dim1 k = dim1 q" "rows m = dim0 q" "cols m = dim1 q"
      and "finite_tensor q" "finite_tensor k" "finite_Linear (query A)" "finite_Linear (key A)"
      and "0 < out_features (key A)"
      and "\<forall>j<dim1 q. cell m b j = 1"
      and "b < dim0 q" "2 \<le> dim1 q"
  shows "\<exists>r<1. vsum (map (entry W b 0) [0..<dim2 W]) = Fin r"
proof -
  have "cell m b j \<noteq> 0" if "j < dim1 q" for j
    using assms(10) that by simp
  then show ?thesis
    using first_query_row_sum [OF assms(1-9) _ assms(11,12)] by blast
qed

theorem first_query_weights_sum_below_one_witness:
  "\<exists>W. SelfAttention_weights example_head example_x example_x example_x (Some mask_11) = Inr W
     \<and> (\<exists>r<1. vsum (map (entry W 0 0) [0..<dim2 W]) = Fin r)"
proof -
  obtain W where W: "SelfAttention_weights example_head example_x example_x example_x (Some mask_11) = Inr W"
    using example_ok(1) by blast
  have "\<exists>r<1. vsum (map (entry W 0 0) [0..<dim2 W]) = Fin r"
    by (rule first_query_weights_sum_below_one [OF W])
       (simp_all add: example_head_sel example_finite mask_11_def)
  with W show ?thesis by blast
qed

text \<open>
  Claim C4 says that encoder self-attention has no causal restriction, so that with an
  all-ones source mask a query may have a nonzero weight at a later key.  An encoder layer
  calls each of its heads with \<^verbatim>\<open>q = k = v = x\<close> and the source mask (line 66, line 90), and
  the head fills the scores above the diagonal with negative infinity whenever it is given
  a mask (lines 116 to 123).  So in every encoder layer whose forward pass returns, every
  head has computed weights in which every query has exactly 0 at every later key.
\<close>

theorem encoder_layer_attention_is_causal:
  assumes "EncoderLayer_forward L src (Some m) s = (Inr y, s')"
      and "A \<in> set (attentions (attn L))"
      and "rows m = dim0 src" "cols m = dim1 src"
      and "finite_tensor src" "finite_Linear (query A)" "finite_Linear (key A)"
      and "0 < out_features (key A)"
      and "\<forall>j<dim1 src. cell m b j = 1"
      and "b < dim0 src" "i < j" "j < dim1 src"
  shows "\<exists>W. SelfAttention_weights A src src src (Some m) = Inr W \<and> entry W b i j = Fin 0"
proof -
  from EncoderLayer_forward_heads_ran [OF assms(1,2)] obtain W where
    W: "SelfAttention_weights A src src src (Some m) = Inr W"
    by blast
  have "cell m b j \<noteq> 0"
    using assms(9,12) by simp
  with later_key_weight_zero [OF W refl assms(3,4,5,5,6,7,8,10,11,12)]
  have "entry W b i j = Fin 0" by simp
  with W show ?thesis by blast
qed

theorem encoder_layer_attention_is_causal_witness:
  "\<exists>L A W. EncoderLayer_init (const_init (1 / 10)) [0, 0] 8 1 2048 (3 / 10) = Inr L
     \<and> attentions (attn L) = [A]
     \<and> (\<exists>y s'. EncoderLayer_forward L (zeros 1 2 8) (Some (ones 1 2)) (eval_state () 0)
                  = (Inr y, s'))
     \<and> SelfAttention_weights A (zeros 1 2 8) (zeros 1 2 8) (zeros 1 2 8) (Some (ones 1 2)) = Inr W
     \<and> entry W 0 0 1 = Fin 0"
proof -
  obtain L where L: "EncoderLayer_init (const_init (1 / 10)) [0, 0] 8 1 2048 (3 / 10) = Inr L"
    using EncoderLayer_init_ok [of 8 1 "const_init (1 / 10)" "[0, 0]"] by auto
  have M: "MultiHeadedAttention_init (const_init (1 / 10)) ([0, 0] @ [0]) 8 1 (3 / 10) = Inr (attn L)"
    by (rule EncoderLayer_init_Inr [OF L])
  have fits: "EncoderLayer_fits L 8"
    using EncoderLayer_fits_init [OF L] by simp
  then obtain A where A: "attentions (attn L) = [A]"
    by (auto simp: EncoderLayer_fits_def one_head_fits_def split: list.splits)
  then have mem: "A \<in> set (attentions (attn L))" by simp
  have fin: "finite_Linear (query A)" "finite_Linear (key A)"
    by (rule finite_heads_init(1) [OF M _ mem], simp add: const_init_def)
       (rule finite_heads_init(2) [OF M _ mem], simp add: const_init_def)
  have pos: "0 < out_features (key A)"
    using MultiHeadedAttention_init_Inr(7) [OF M mem] by simp
  obtain y s' where y: "EncoderLayer_forward L (zeros 1 2 8) (Some (ones 1 2)) (eval_state () 0) = (Inr y, s')"
    using EncoderLayer_forward_ok [OF fits, of "zeros 1 2 8" 1 2 "Some (ones 1 2)" "eval_state () 0"]
    by auto
  have "\<exists>W. SelfAttention_weights A (zeros 1 2 8) (zeros 1 2 8) (zeros 1 2 8) (Some (ones 1 2)) = Inr W
          \<and> entry W 0 0 1 = Fin 0"
    by (rule encoder_layer_attention_is_causal [OF y mem _ _ finite_zeros fin pos])
       (simp_all add: ones_def zeros_def)
  with L A y show ?thesis by blast
qed

text \<open>
  Claim C5 says that in decoder self-attention the weight of query \<open>i\<close> at a later key \<open>j\<close>
  is exactly 0 whatever the mask holds.  In the code it is 0 only where the mask marks key
  \<open>j\<close> valid; where it marks key \<open>j\<close> invalid the softmax over the query axis sees a column
  of negative infinity and the weight is NaN.
\<close>

theorem later_key_weight_is_zero_or_NaN:
  assumes "SelfAttention_weights A tgt tgt tgt (Some m) = Inr W"
      and "rows m = dim0 tgt" "cols m = dim1 tgt"
      and "finite_tensor tgt" "finite_Linear (query A)" "finite_Linear (key A)"
      and "0 < out_features (key A)"
      and "b < dim0 tgt" "i < j" "j < dim1 tgt"
  shows "entry W b i j = (if cell m b j = 0 then NaN else Fin 0)"
proof (cases "cell m b j = 0")
  case True
  have "i < dim1 tgt" using assms(9,10) by simp
  from masked_key_weight_NaN [OF assms(1) refl assms(2,3,8) this assms(10) True] True
  show ?thesis by simp
next
  case False
  from later_key_weight_zero [OF assms(1) refl assms(2,3,4,4,5,6,7,8,9,10) False] False
  show ?thesis by simp
qed

theorem later_key_weight_is_zero_or_NaN_witness:
  "\<exists>W. SelfAttention_weights example_head example_x example_x example_x (Some mask_10) = Inr W
     \<and> cell mask_10 0 1 = 0 \<and> entry W 0 0 1 = NaN"
proof -
  obtain W where W: "SelfAttention_weights example_head example_x example_x example_x (Some mask_10) = Inr W"
    using example_ok(2) by blast
  have "entry W 0 0 1 = (if cell mask_10 0 1 = 0 then NaN else Fin 0)"
    by (rule later_key_weight_is_zero_or_NaN [OF W])
       (simp_all add: example_head_sel example_finite)
  moreover have "cell mask_10 0 1 = 0"
    by (simp add: mask_10_def)
  ultimately show ?thesis using W by simp
qed

text \<open>
  Claim C10: called without a mask, \<^verbatim>\<open>SelfAttention.forward\<close> masks nothing, neither padding
  nor later positions.  The weights are the softmax of the scores exactly as line 113 leaves
  them: every score handed to the softmax is the scaled dot product itself, none has been
  replaced by negative infinity, and the weights have the shape (batch, query length, key
  length).
\<close>

theorem no_mask_no_restriction:
  assumes "SelfAttention_weights A q k v None = Inr W"
  shows "\<exists>S. SelfAttention_scores A q k = Inr S \<and> W = softmax_dim1 (to_score S)
            \<and> (\<forall>b i j. entry (to_score S) b i j = Sc (entry S b i j))
            \<and> dim0 W = dim0 q \<and> dim1 W = dim1 q \<and> dim2 W = dim1 k"
proof -
  from SelfAttention_weights_None [OF assms] obtain S where
    S: "SelfAttention_scores A q k = Inr S"
    and dS: "dim0 S = dim0 q" "dim1 S = dim1 q" "dim2 S = dim1 k"
    and Weq: "W = softmax_dim1 (to_score S)"
    by blast
  have dW: "dim0 W = dim0 q" "dim1 W = dim1 q" "dim2 W = dim1 k"
    using dS by (simp_all add: Weq softmax_dim1_def to_score_def)
  have raw: "\<forall>b i j. entry (to_score S) b i j = Sc (entry S b i j)"
    by (simp add: to_score_def)
  show ?thesis
    by (intro exI [of _ S] conjI S Weq raw dW)
qed

theorem no_mask_no_restriction_witness:
  "\<exists>W S. SelfAttention_weights example_head example_x example_x example_x None = Inr W
     \<and> SelfAttention_scores example_head example_x example_x = Inr S
     \<and> W = softmax_dim1 (to_score S)
     \<and> entry (to_score S) 0 0 1 = Sc (entry S 0 0 1)
     \<and> dim0 W = 1 \<and> dim1 W = 2 \<and> dim2 W = 2"
proof -
  obtain W where W: "SelfAttention_weights example_head example_x example_x example_x None = Inr W"
    using example_ok(3) by blast
  from no_mask_no_restriction [OF W] obtain S where
    S: "SelfAttention_scores example_head example_x example_x = Inr S"
    and Weq: "W = softmax_dim1 (to_score S)"
    and raw: "\<forall>b i j. entry (to_score S) b i j = Sc (entry S b i j)"
    and dW: "dim0 W = dim0 example_x" "dim1 W = dim1 example_x" "dim2 W = dim1 example_x"
    by blast
  have e: "entry (to_score S) 0 0 1 = Sc (entry S 0 0 1)"
    using raw by blast
  have d: "dim0 W = 1" "dim1 W = 2" "dim2 W = 2"
    using dW by (simp_all add: example_head_sel)
  show ?thesis
    by (intro exI [of _ W] exI [of _ S] conjI W S Weq e d)
qed

subsection \<open>The whole forward pass\<close>

text \<open>
  Claim C2 says that the heads' outputs are concatenated along the feature axis, so that for
  every valid configuration and input \<^verbatim>\<open>Transformer.forward\<close> returns a tensor of shape
  (batch, tgt_len, d_model).  The code concatenates with \<^verbatim>\<open>dim=1\<close>, the position axis: the
  result is \<^verbatim>\<open>d_model // num_heads\<close> wide, and the output projection, which expects
  \<^verbatim>\<open>d_model\<close>, raises.  So a model with a positive \<^verbatim>\<open>d_model\<close>, two or more heads and at
  least one encoder layer raises a \<open>RuntimeError\<close> on every input; the witness is the
  configuration and the shapes of the spec's own example.
\<close>

theorem forward_fails_with_several_heads:
  assumes init: "Transformer_init \<theta> d h ne nd = Inr T"
      and cfg: "0 < d" "2 \<le> h" "1 \<le> ne"
      and s: "model s = T"
  shows "fst (Transformer_forward src tgt src_mask tgt_mask s) = Inl RuntimeError"
proof -
  from first_encoder_layer [OF init cfg(3)] obtain L Ls where
    L: "enc_layers (encoder T) = L # Ls"
    and M: "MultiHeadedAttention_init \<theta> [0, 0, 0] d h (3 / 10) = Inr (attn L)"
    by blast
  from first_head [OF M] cfg(2) obtain A As where
    A: "attentions (attn L) = A # As"
    and w: "out_features (value_lin A) = nat (d div h)" "in_features (output_lin (attn L)) = nat d"
    by auto
  have "d div h < d"
    using cfg(1,2) by (intro int_div_less_self) simp_all
  moreover have "0 \<le> d div h"
    using cfg(1,2) by (simp add: pos_imp_zdiv_nonneg_iff)
  ultimately have "out_features (value_lin A) \<noteq> in_features (output_lin (attn L))"
    using w by simp
  then have "MultiHeadedAttention_forward (attn L) src src src src_mask = Inl RuntimeError"
    by (rule MultiHeadedAttention_forward_width_mismatch [OF A])
  then have "EncoderLayer_forward L src src_mask s = (Inl RuntimeError, s)"
    by (rule EncoderLayer_forward_attn_fails)
  then have "fst (Encoder_forward (encoder (model s)) src src_mask s) = Inl RuntimeError"
    by (simp add: Encoder_forward_def s L bindM_def)
  then show ?thesis
    by (rule Transformer_forward_encoder_fails)
qed

theorem forward_fails_with_several_heads_witness:
  "\<exists>T. Transformer_init (const_init 0) 16 4 6 6 = Inr T
     \<and> fst (Transformer_forward (zeros 2 5 16) (zeros 2 4 16) (Some (ones 2 5)) (Some (ones 2 4))
              (eval_state T 0)) = Inl RuntimeError"
proof -
  obtain T where T: "Transformer_init (const_init 0) 16 4 6 6 = Inr T"
    using Transformer_init_ok [of 16 4 "const_init 0" 6 6] by auto
  have "fst (Transformer_forward (zeros 2 5 16) (zeros 2 4 16) (Some (ones 2 5)) (Some (ones 2 4))
              (eval_state T 0)) = Inl RuntimeError"
    by (rule forward_fails_with_several_heads [OF T]) (simp_all add: eval_state_def)
  with T show ?thesis by blast
qed

text \<open>
  Claim C3 says that the decoder's self-attention receives the target mask and its
  cross-attention the source mask.  Line 16 calls \<^verbatim>\<open>self.decoder(tgt, enc_out, src_mask,
  tgt_mask)\<close>, and \<^verbatim>\<open>Decoder.forward(self, tgt, enc, tgt_mask, enc_mask)\<close> hands its third
  argument to the self-attention and its fourth to the cross-attention: the self-attention
  over the target runs on the source mask.  So a source mask whose length is neither the
  target length nor 1 makes every forward pass of a model with a decoder layer raise,
  whatever the target mask.  The witness has a target of one position and a source of
  three: the encoder returns, the forward pass raises, and the decoder called with the two
  masks the other way round returns a tensor of the target's shape.
\<close>

theorem decoder_self_attention_gets_source_mask:
  assumes init: "Transformer_init \<theta> d h ne nd = Inr T"
      and cfg: "1 \<le> h" "1 \<le> nd"
      and s: "model s = T"
      and len: "cols m \<noteq> dim1 tgt" "cols m \<noteq> 1"
  shows "fst (Transformer_forward src tgt (Some m) tgt_mask s) = Inl RuntimeError"
proof -
  from first_decoder_layer [OF init cfg(2)] obtain L Ls where
    L: "dec_layers (decoder T) = L # Ls"
    and M: "MultiHeadedAttention_init \<theta> [1, 0, 0] d h (3 / 10) = Inr (masked_attn L)"
    by blast
  from first_head [OF M cfg(1)] obtain A As where A: "attentions (masked_attn L) = A # As"
    by blast
  have "MultiHeadedAttention_forward (masked_attn L) tgt tgt tgt (Some m) = Inl RuntimeError"
    by (rule MultiHeadedAttention_forward_first_head_fails [OF A])
       (rule SelfAttention_forward_mask_length_mismatch [OF len])
  from Transformer_forward_decoder_fails_at [OF s L this] show ?thesis .
qed

theorem decoder_self_attention_gets_source_mask_witness:
  "\<exists>T. Transformer_init (const_init (1 / 10)) 8 1 6 6 = Inr T
     \<and> cols (ones 1 3) \<noteq> dim1 (zeros 1 1 8)
     \<and> fst (Transformer_forward (zeros 1 3 8) (zeros 1 1 8) (Some (ones 1 3)) (Some (ones 1 1))
              (eval_state T 0)) = Inl RuntimeError
     \<and> (\<exists>enc_out s'.
           Encoder_forward (encoder T) (zeros 1 3 8) (Some (ones 1 3)) (eval_state T 0)
             = (Inr enc_out, s')
         \<and> (\<exists>y. fst (Decoder_forward (decoder T) (zeros 1 1 8) enc_out
                        (Some (ones 1 1)) (Some (ones 1 3)) s') = Inr y
                \<and> shape y = (1, 1, 8)))"
proof -
  obtain T where T: "Transformer_init (const_init (1 / 10)) 8 1 6 6 = Inr T"
    using Transformer_init_ok [of 8 1 "const_init (1 / 10)" 6 6] by auto
  have len: "cols (ones 1 3) \<noteq> dim1 (zeros 1 1 8)" "cols (ones 1 3) \<noteq> 1"
    by (simp_all add: ones_def zeros_def)
  have fails: "fst (Transformer_forward (zeros 1 3 8) (zeros 1 1 8) (Some (ones 1 3))
                 (Some (ones 1 1)) (eval_state T 0)) = Inl RuntimeError"
    by (rule decoder_self_attention_gets_source_mask [OF T _ _ _ len])
       (simp_all add: eval_state_def)
  note fits = Transformer_fits_init [OF T]
  have n8: "nat 8 = (8::nat)" by simp
  obtain enc_out s' where
    e: "Encoder_forward (encoder T) (zeros 1 3 8) (Some (ones 1 3)) (eval_state T 0)
          = (Inr enc_out, s')" "shape enc_out = (1, 3, 8)"
    using Encoder_loop_ok [OF fits(1) [unfolded n8], of "zeros 1 3 8" 1 3 "Some (ones 1 3)"
        "eval_state T 0"]
    by (auto simp: Encoder_forward_def)
  obtain y s2 where
    "Decoder_forward (decoder T) (zeros 1 1 8) enc_out (Some (ones 1 1)) (Some (ones 1 3)) s'
       = (Inr y, s2)" "shape y = (1, 1, 8)"
    using Decoder_loop_ok [OF fits(2) [unfolded n8], of "zeros 1 1 8" 1 1 enc_out 3
        "Some (ones 1 1)" "Some (ones 1 3)" s'] e(2)
    by (auto simp: Decoder_forward_def)
  then have "\<exists>y. fst (Decoder_forward (decoder T) (zeros 1 1 8) enc_out
                        (Some (ones 1 1)) (Some (ones 1 3)) s') = Inr y
                \<and> shape y = (1, 1, 8)"
    by simp
  with T len(1) fails e(1) show ?thesis by blast
qed

text \<open>
  Claim C9: a forward pass leaves every parameter as it was.  The module tree in the state
  after \<^verbatim>\<open>Transformer.forward\<close>, whether it returned or raised, is the one before it, for
  every input, in training mode as in evaluation mode.
\<close>

theorem forward_leaves_parameters_unchanged:
  "model (snd (Transformer_forward src tgt src_mask tgt_mask s)) = model s"
proof -
  let ?enc = "Encoder_forward (encoder (model s)) src src_mask :: (Transformer, val tensor) M"
  obtain r s' where e: "?enc s = (r, s')" by (cases "?enc s")
  have s': "model s' = model s"
    using keeps_modelD [OF keeps_model_Encoder, of "encoder (model s)" src src_mask s] e by simp
  show ?thesis
  proof (cases r)
    case (Inl err)
    then show ?thesis using e s' by (simp add: Transformer_forward_def bindM_def)
  next
    case (Inr enc_out)
    let ?dec = "bindM (Decoder_forward (decoder (model s')) tgt enc_out src_mask tgt_mask)
                  (\<lambda>dec_out. returnM (Inr dec_out)) :: (Transformer, val tensor) M"
    have "Transformer_forward src tgt src_mask tgt_mask s = ?dec s'"
      using e Inr by (simp add: Transformer_forward_def bindM_def)
    moreover have "keeps_model ?dec"
      by (intro keeps_model_bindM keeps_model_Decoder keeps_model_returnM)
    ultimately show ?thesis
      using s' keeps_modelD [of ?dec s'] by simp
  qed
qed

text \<open>
  Claim C8: with dropout disabled, two forward calls with the same parameters and the same
  inputs give the same output.  The two runs may start from any two generator states; in
  evaluation mode (the training flag off in both) the results agree.
\<close>

theorem forward_deterministic_in_eval_mode:
  assumes "training s1 = False" "training s2 = False" "model s1 = model s2"
  shows "fst (Transformer_forward src tgt src_mask tgt_mask s1)
       = fst (Transformer_forward src tgt src_mask tgt_mask s2)"
proof -
  define T where "T = model s1"
  let ?F = "bindM (Encoder_forward (encoder T) src src_mask) (\<lambda>enc_out.
          bindM (Decoder_forward (decoder T) tgt enc_out src_mask tgt_mask)
                   (\<lambda>dec_out. returnM (Inr dec_out))) :: (Transformer, val tensor) M"
  from eval_pure_forward [of T src src_mask tgt] obtain r where
    r: "\<And>s :: Transformer state. training s \<or> ?F s = (r, s)"
    unfolding eval_pure_def by blast
  have enc: "eval_pure (Encoder_forward (encoder T) src src_mask :: (Transformer, val tensor) M)"
    by (simp add: Encoder_forward_def eval_pure_Encoder_loop)
  then obtain re where re: "\<And>s :: Transformer state. training s \<or> Encoder_forward (encoder T) src src_mask s = (re, s)"
    unfolding eval_pure_def by blast
  have "Transformer_forward src tgt src_mask tgt_mask s = ?F s" if "\<not> training s" "model s = T" for s
    using that re [of s] by (auto simp: Transformer_forward_def bindM_def split: sum.splits)
  then have "Transformer_forward src tgt src_mask tgt_mask s1 = ?F s1"
    "Transformer_forward src tgt src_mask tgt_mask s2 = ?F s2"
    using assms by (simp_all add: T_def)
  then show ?thesis
    using r [of s1] r [of s2] assms(1,2) by simp
qed

theorem forward_deterministic_in_eval_mode_witness:
  "\<exists>T. Transformer_init (const_init (1 / 10)) 8 1 6 6 = Inr T
     \<and> rng (eval_state T 0) \<noteq> rng (eval_state T (1 / 2))
     \<and> fst (Transformer_forward (zeros 1 2 8) (zeros 1 2 8) (Some (ones 1 2)) (Some (ones 1 2))
              (eval_state T 0))
       = fst (Transformer_forward (zeros 1 2 8) (zeros 1 2 8) (Some (ones 1 2)) (Some (ones 1 2))
              (eval_state T (1 / 2)))
     \<and> (\<exists>y. fst (Transformer_forward (zeros 1 2 8) (zeros 1 2 8) (Some (ones 1 2))
                    (Some (ones 1 2)) (eval_state T 0)) = Inr y
            \<and> shape y = (1, 2, 8))"
proof -
  obtain T where T: "Transformer_init (const_init (1 / 10)) 8 1 6 6 = Inr T"
    using Transformer_init_ok [of 8 1 "const_init (1 / 10)" 6 6] by auto
  have same: "fst (Transformer_forward (zeros 1 2 8) (zeros 1 2 8) (Some (ones 1 2))
                (Some (ones 1 2)) (eval_state T 0))
       = fst (Transformer_forward (zeros 1 2 8) (zeros 1 2 8) (Some (ones 1 2)) (Some (ones 1 2))
              (eval_state T (1 / 2)))"
    by (rule forward_deterministic_in_eval_mode) (simp_all add: eval_state_def)
  have differ: "rng (eval_state T 0) \<noteq> rng (eval_state T (1 / 2))"
    by (simp add: eval_state_def fun_eq_iff)
  have "\<exists>y. fst (Transformer_forward (zeros 1 2 8) (zeros 1 2 8) (Some (ones 1 2))
                    (Some (ones 1 2)) (eval_state T 0)) = Inr y
            \<and> shape y = (1, 2, nat 8)"
    by (rule Transformer_forward_ok [where b = 1 and n = 2 and n' = 2, OF T])
       (simp_all add: eval_state_def)
  then have returns: "\<exists>y. fst (Transformer_forward (zeros 1 2 8) (zeros 1 2 8) (Some (ones 1 2))
                    (Some (ones 1 2)) (eval_state T 0)) = Inr y
            \<and> shape y = (1, 2, 8)"
    by simp
  show ?thesis
    by (intro exI [of _ T] conjI T differ same returns)
qed

subsection \<open>Construction\<close>

text \<open>
  Claim C7 says that a \<^verbatim>\<open>d_model\<close> not divisible by \<^verbatim>\<open>num_heads\<close>, zero heads or a
  non-positive dimension make construction fail with a ConfigurationError.  The code has no
  such check and no such exception: \<^verbatim>\<open>MultiHeadedAttention(10, 3, 0.3)\<close> is built, with
  three heads of width \<^verbatim>\<open>10 // 3 = 3\<close>.
\<close>

theorem non_divisible_heads_are_accepted:
  "map_sum id (\<lambda>M. (d_model M, num_heads M, attn_output_size M, length (attentions M)))
     (MultiHeadedAttention_init (const_init 0) [] 10 3 (3 / 10)) = Inr (10, 3, 3, 3)"
proof -
  obtain M where M: "MultiHeadedAttention_init (const_init 0) [] 10 3 (3 / 10) = Inr M"
    using MultiHeadedAttention_init_ok [of 10 3 "const_init 0" "[]" "3 / 10"] by auto
  note f = MultiHeadedAttention_init_Inr [OF M]
  show ?thesis
    using f(3,4,5,6) by (simp add: M)
qed

text \<open>
  Claim C7 as amended: \<^verbatim>\<open>MultiHeadedAttention.__init__\<close> checks nothing itself.  With zero
  heads the floor division raises \<open>ZeroDivisionError\<close>; with a negative \<^verbatim>\<open>d_model\<close> torch
  raises when the first projection is built; with \<^verbatim>\<open>d_model \<ge> 0\<close> and at least one head
  construction succeeds, every head is \<^verbatim>\<open>d_model // num_heads\<close> wide, and
  \<^verbatim>\<open>num_heads * d_head\<close> is at most \<^verbatim>\<open>d_model\<close>, equal to it exactly when \<^verbatim>\<open>num_heads\<close>
  divides \<^verbatim>\<open>d_model\<close>.
\<close>

theorem MultiHeadedAttention_init_floor_division:
  "(h = 0 \<longrightarrow> MultiHeadedAttention_init \<theta> p d h dr = Inl ZeroDivisionError)
   \<and> (d < 0 \<and> 1 \<le> h \<longrightarrow> MultiHeadedAttention_init \<theta> p d h dr = Inl RuntimeError)
   \<and> (0 \<le> d \<and> 1 \<le> h \<longrightarrow>
        (\<exists>M. MultiHeadedAttention_init \<theta> p d h dr = Inr M
           \<and> d_model M = d \<and> num_heads M = h \<and> attn_output_size M = d div h
           \<and> length (attentions M) = nat h
           \<and> list_all (\<lambda>A. out_features (value_lin A) = nat (d div h)) (attentions M)
           \<and> num_heads M * attn_output_size M \<le> d_model M
           \<and> (num_heads M * attn_output_size M = d_model M \<longleftrightarrow> h dvd d)))"
proof (intro conjI impI)
  assume "h = 0"
  then show "MultiHeadedAttention_init \<theta> p d h dr = Inl ZeroDivisionError"
    by (simp add: MultiHeadedAttention_init_zero)
next
  assume "d < 0 \<and> 1 \<le> h"
  then show "MultiHeadedAttention_init \<theta> p d h dr = Inl RuntimeError"
    by (simp add: MultiHeadedAttention_init_neg)
next
  assume a: "0 \<le> d \<and> 1 \<le> h"
  then obtain M where M: "MultiHeadedAttention_init \<theta> p d h dr = Inr M"
    using MultiHeadedAttention_init_ok [of d h \<theta> p dr] by blast
  note f = MultiHeadedAttention_init_Inr [OF M]
  have heads: "list_all (\<lambda>A. out_features (value_lin A) = nat (d div h)) (attentions M)"
    using f(7) by (simp add: list_all_iff)
  have hpos: "0 < h" using a by simp
  have dm: "h * (d div h) + d mod h = d"
    by simp
  have "0 \<le> d mod h"
    using hpos by simp
  with dm have le: "h * (d div h) \<le> d"
    by linarith
  have "h * (d div h) = d \<longleftrightarrow> d mod h = 0"
    using dm by linarith
  then have eq: "h * (d div h) = d \<longleftrightarrow> h dvd d"
    by (simp add: dvd_eq_mod_eq_0)
  show "\<exists>M. MultiHeadedAttention_init \<theta> p d h dr = Inr M
           \<and> d_model M = d \<and> num_heads M = h \<and> attn_output_size M = d div h
           \<and> length (attentions M) = nat h
           \<and> list_all (\<lambda>A. out_features (value_lin A) = nat (d div h)) (attentions M)
           \<and> num_heads M * attn_output_size M \<le> d_model M
           \<and> (num_heads M * attn_output_size M = d_model M \<longleftrightarrow> h dvd d)"
    using M f(3,4,5,6) heads le eq by auto
qed

theorem MultiHeadedAttention_init_floor_division_witness:
  "MultiHeadedAttention_init (const_init 0) [] 16 0 (3 / 10) = Inl ZeroDivisionError
   \<and> MultiHeadedAttention_init (const_init 0) [] (- 16) 4 (3 / 10) = Inl RuntimeError
   \<and> (\<exists>M. MultiHeadedAttention_init (const_init 0) [] 16 4 (3 / 10) = Inr M
          \<and> attn_output_size M = 4 \<and> length (attentions M) = 4
          \<and> num_heads M * attn_output_size M = d_model M)"
  using MultiHeadedAttention_init_floor_division [of 0 "const_init 0" "[]" 16 "3 / 10"]
    MultiHeadedAttention_init_floor_division [of 4 "const_init 0" "[]" "- 16" "3 / 10"]
    MultiHeadedAttention_init_floor_division [of 4 "const_init 0" "[]" 16 "3 / 10"]
  by auto

end
